theory Spec2Isabelle
  imports Complex_Main
begin

section \<open>The Stampede loader (Pegasus/db/modules/stampede\_loader.py)\<close>

text \<open>
  A shallow embedding of the class \<open>Analyzer\<close> of \<open>stampede_loader.py\<close>: the loader
  object is a record that every method takes and returns, an exception is the left
  summand of a method's outcome, and the relational store behind the SQLAlchemy session
  is a list of rows.
\<close>

subsection \<open>Python values and exceptions\<close>

text \<open>
  The values a BP record carries (string, number, null) and the values the loader itself
  stores in attributes (surrogate ids, booleans). Two values of different constructors
  are never equal, as a Python \<open>int\<close> is never equal to a \<open>str\<close>.
\<close>

datatype pyval = PNone | PStr string | PInt int | PFloat real | PBool bool

datatype exn =
    KeyError | AttributeError | IndexError | ValueError | TypeError
  | IntegrityError | NoResultFound | MultipleResultsFound

text \<open>The mapped classes of the schema.\<close>

datatype kind =
    Workflow | Workflowstate | Job | JobEdge | Task | TaskEdge
  | JobInstance | Jobstate | Host | Invocation | JobMetrics

text \<open>
  The built-in conversions of the Python runtime on strings, the entity classes'
  reaction to \<open>setattr\<close> and the helper \<open>util.as_bool\<close> of the netlogger package
  are not code of the loader: they are taken as parameters.
\<close>

record runtime =
  float_of_str :: "string \<Rightarrow> real option"
  int_of_str :: "string \<Rightarrow> int option"
  rejects_attr :: "kind \<Rightarrow> string \<Rightarrow> pyval \<Rightarrow> bool"
  as_bool :: "pyval \<Rightarrow> exn + pyval"

text \<open>\<open>float(v)\<close>: a TypeError on None, a ValueError on a string that is no number.\<close>

fun py_float :: "runtime \<Rightarrow> pyval \<Rightarrow> exn + pyval" where
  "py_float rt PNone = Inl TypeError"
| "py_float rt (PStr s) = (case float_of_str rt s of None \<Rightarrow> Inl ValueError | Some r \<Rightarrow> Inr (PFloat r))"
| "py_float rt (PInt i) = Inr (PFloat (of_int i))"
| "py_float rt (PFloat r) = Inr (PFloat r)"
| "py_float rt (PBool b) = Inr (PFloat (if b then 1 else 0))"

text \<open>\<open>int(v)\<close>; a float is truncated towards zero.\<close>

fun py_int :: "runtime \<Rightarrow> pyval \<Rightarrow> exn + int" where
  "py_int rt PNone = Inl TypeError"
| "py_int rt (PStr s) = (case int_of_str rt s of None \<Rightarrow> Inl ValueError | Some i \<Rightarrow> Inr i)"
| "py_int rt (PInt i) = Inr i"
| "py_int rt (PFloat r) = Inr (if r < 0 then \<lceil>r\<rceil> else \<lfloor>r\<rfloor>)"
| "py_int rt (PBool b) = Inr (if b then 1 else 0)"

text \<open>Truth value of an object in a condition (\<open>if not x\<close>).\<close>

fun truthy :: "pyval \<Rightarrow> bool" where
  "truthy PNone = False"
| "truthy (PStr s) = (s \<noteq> [])"
| "truthy (PInt i) = (i \<noteq> 0)"
| "truthy (PFloat r) = (r \<noteq> 0)"
| "truthy (PBool b) = b"

text \<open>\<open>xs[i]\<close> on a list: positions from the front for \<open>i \<ge> 0\<close>, from the back for
  \<open>i < 0\<close>, IndexError outside \<open>-len(xs) .. len(xs) - 1\<close>.\<close>

definition py_index :: "'a list \<Rightarrow> int \<Rightarrow> exn + 'a" where
  "py_index xs i =
     (if 0 \<le> i \<and> i < int (length xs) then Inr (xs ! nat i)
      else if i < 0 \<and> - int (length xs) \<le> i then Inr (xs ! nat (int (length xs) + i))
      else Inl IndexError)"

subsection \<open>String operations\<close>

definition startswith :: "string \<Rightarrow> string \<Rightarrow> bool" where
  "startswith s p = (take (length p) s = p)"

text \<open>\<open>s.split('.')\<close>: the segments between the dots, empty segments kept.\<close>

fun split_dot :: "string \<Rightarrow> string list" where
  "split_dot [] = [[]]"
| "split_dot (c # cs) =
     (if c = CHR ''.'' then [] # split_dot cs
      else (case split_dot cs of [] \<Rightarrow> [[c]] | w # ws \<Rightarrow> (c # w) # ws))"

definition upper_char :: "char \<Rightarrow> char" where
  "upper_char c =
     (let n = (of_char c :: nat) in if 97 \<le> n \<and> n \<le> 122 then char_of (n - 32) else c)"

definition upper :: "string \<Rightarrow> string" where
  "upper s = map upper_char s"

text \<open>\<open>k.replace('.', '_')\<close>\<close>

definition undot :: "string \<Rightarrow> string" where
  "undot k = map (\<lambda>c. if c = CHR ''.'' then CHR ''_'' else c) k"

text \<open>
  The argv sanitizer: \<open>v.replace("\\", "\\\\")\<close> doubles each backslash (character
  0x5C), then \<open>v.replace("'", "\\'")\<close> puts a backslash before each single quote
  (character 0x27).
\<close>

definition escape_backslash :: "string \<Rightarrow> string" where
  "escape_backslash v = concat (map (\<lambda>c. if c = CHR 0x5C then [CHR 0x5C, CHR 0x5C] else [c]) v)"

definition escape_quote :: "string \<Rightarrow> string" where
  "escape_quote v = concat (map (\<lambda>c. if c = CHR 0x27 then [CHR 0x5C, CHR 0x27] else [c]) v)"

fun sanitize_argv :: "pyval \<Rightarrow> exn + pyval" where
  "sanitize_argv PNone = Inr PNone"
| "sanitize_argv (PStr v) = Inr (PStr (escape_quote (escape_backslash v)))"
| "sanitize_argv v = Inl AttributeError"

subsection \<open>Entities and the relational store\<close>

text \<open>
  A mapped object: its class, the attributes set on it, and whether the session has
  already written it (a persistent object is updated, not inserted again).
\<close>

record entity =
  kind :: kind
  attrs :: "string \<rightharpoonup> pyval"
  persistent :: bool

definition new_entity :: "kind \<Rightarrow> entity" where
  "new_entity k = \<lparr>kind = k, attrs = Map.empty, persistent = False\<rparr>"

text \<open>
  Modelled from the spec: the mapped classes of \<open>Pegasus.db.schema\<close> (the schema is not
  part of the loader's module). Each table has the columns of its natural key, of its
  parent references and of the attributes the loader assigns (spec, Data Model and
  Persisted schema); the surrogate key is the \<open>pkey\<close> column.
\<close>

fun pkey :: "kind \<Rightarrow> string" where
  "pkey Workflow = ''wf_id''"
| "pkey Workflowstate = ''wfs_id''"
| "pkey Job = ''job_id''"
| "pkey JobEdge = ''job_edge_id''"
| "pkey Task = ''task_id''"
| "pkey TaskEdge = ''task_edge_id''"
| "pkey JobInstance = ''job_instance_id''"
| "pkey Jobstate = ''jobstate_id''"
| "pkey Host = ''host_id''"
| "pkey Invocation = ''invocation_id''"
| "pkey JobMetrics = ''job_metrics_id''"

text \<open>Modelled from the spec: the natural key of each entity (spec, Data Model table).\<close>

fun natural_key :: "kind \<Rightarrow> string list" where
  "natural_key Workflow = [''wf_uuid'']"
| "natural_key Workflowstate = [''wf_id'', ''timestamp'', ''state'']"
| "natural_key Job = [''wf_id'', ''exec_job_id'']"
| "natural_key JobEdge = [''wf_id'', ''parent_exec_job_id'', ''child_exec_job_id'']"
| "natural_key Task = [''wf_id'', ''abs_task_id'']"
| "natural_key TaskEdge = [''wf_id'', ''parent_abs_task_id'', ''child_abs_task_id'']"
| "natural_key JobInstance = [''job_id'', ''job_submit_seq'']"
| "natural_key Jobstate = [''job_instance_id'', ''timestamp'', ''state'']"
| "natural_key Host = [''wf_id'', ''site'', ''hostname'', ''ip'']"
| "natural_key Invocation = [''job_instance_id'', ''task_submit_seq'']"
| "natural_key JobMetrics = [''job_instance_id'', ''dag_job_id'']"

fun other_columns :: "kind \<Rightarrow> string list" where
  "other_columns Workflow = [''root_wf_id'', ''parent_wf_id'', ''timestamp'', ''planner_arguments'']"
| "other_columns Job = [''clustered'']"
| "other_columns Task = [''job_id'']"
| "other_columns JobInstance = [''host_id'', ''subwf_id'', ''sched_id'']"
| "other_columns Invocation = [''wf_id'']"
| "other_columns k = []"

definition columns :: "kind \<Rightarrow> string list" where
  "columns k = pkey k # natural_key k @ other_columns k"

text \<open>
  \<open>getattr(o, a)\<close>: an attribute that was set has its value, a column that was never
  set reads as None, anything else raises AttributeError. \<open>hasattr\<close> is true where
  \<open>getattr\<close> does not raise.
\<close>

definition getattr :: "entity \<Rightarrow> string \<Rightarrow> exn + pyval" where
  "getattr o' a =
     (case attrs o' a of
        Some v \<Rightarrow> Inr v
      | None \<Rightarrow> if a \<in> set (columns (kind o')) then Inr PNone else Inl AttributeError)"

definition hasattr :: "entity \<Rightarrow> string \<Rightarrow> bool" where
  "hasattr o' a = (attrs o' a \<noteq> None \<or> a \<in> set (columns (kind o')))"

definition set_attr :: "entity \<Rightarrow> string \<Rightarrow> pyval \<Rightarrow> entity" where
  "set_attr o' a v = o'\<lparr>attrs := (attrs o')(a \<mapsto> v)\<rparr>"

text \<open>The value of a column of a row (NULL where nothing was stored).\<close>

definition col :: "entity \<Rightarrow> string \<Rightarrow> pyval" where
  "col r a = (case attrs r a of Some v \<Rightarrow> v | None \<Rightarrow> PNone)"

text \<open>The row an object is stored as: its column attributes only.\<close>

definition as_row :: "entity \<Rightarrow> entity" where
  "as_row o' = \<lparr>kind = kind o',
               attrs = (\<lambda>a. if a \<in> set (columns (kind o')) then attrs o' a else None),
               persistent = True\<rparr>"

definition key_of :: "entity \<Rightarrow> pyval list" where
  "key_of r = map (col r) (natural_key (kind r))"

text \<open>
  Modelled from the spec: the storage-level uniqueness constraint. Two rows of a table
  conflict when they agree on the natural key; as in SQL, a key with a NULL component
  conflicts with nothing.
\<close>

definition conflicts :: "entity \<Rightarrow> entity \<Rightarrow> bool" where
  "conflicts r e = (kind r = kind e \<and> key_of r = key_of e \<and> PNone \<notin> set (key_of e))"

text \<open>The next surrogate key of a table: one more than the largest one in use.\<close>

definition used_ids :: "kind \<Rightarrow> entity list \<Rightarrow> int list" where
  "used_ids k db = concat (map (\<lambda>r. if kind r = k then (case col r (pkey k) of PInt i \<Rightarrow> [i] | _ \<Rightarrow> []) else []) db)"

definition next_id :: "kind \<Rightarrow> entity list \<Rightarrow> int" where
  "next_id k db = 1 + fold max (used_ids k db) 0"

definition has_pk :: "entity list \<Rightarrow> entity \<Rightarrow> bool" where
  "has_pk db e = (col e (pkey (kind e)) \<noteq> PNone \<and>
     (\<exists>r \<in> set db. kind r = kind e \<and> col r (pkey (kind e)) = col e (pkey (kind e))))"

definition same_pk :: "entity \<Rightarrow> entity \<Rightarrow> bool" where
  "same_pk e r = (kind r = kind e \<and> col r (pkey (kind e)) = col e (pkey (kind e)))"

text \<open>INSERT: refused on a conflict, else the row is appended under a fresh surrogate key
  (or under the key the object already carries, when no row has it).\<close>

definition insert_row :: "entity list \<Rightarrow> entity \<Rightarrow> (entity list \<times> entity) option" where
  "insert_row db e =
     (if (\<exists>r \<in> set db. conflicts r e) \<or> has_pk db e then None
      else let e' = (if col e (pkey (kind e)) = PNone
                     then set_attr e (pkey (kind e)) (PInt (next_id (kind e) db)) else e)
                    \<lparr>persistent := True\<rparr>
           in Some (db @ [as_row e'], e'))"

text \<open>UPDATE of the row with the object's surrogate key; refused when the new natural key
  conflicts with another row.\<close>

definition update_row :: "entity list \<Rightarrow> entity \<Rightarrow> (entity list \<times> entity) option" where
  "update_row db e =
     (if (\<exists>r \<in> set db. \<not> same_pk e r \<and> conflicts r e) then None
      else Some (map (\<lambda>r. if same_pk e r then as_row e else r) db, e\<lparr>persistent := True\<rparr>))"

text \<open>
  The pending operations of the session. \<open>session.add\<close> inserts a new object and
  updates a persistent one; \<open>session.merge\<close> copies the attributes set on the object
  onto the row with its surrogate key when there is one, and inserts otherwise.
\<close>

datatype pending = Add entity | Merge entity

definition merged :: "entity list \<Rightarrow> entity \<Rightarrow> entity" where
  "merged db e =
     (case filter (same_pk e) db of
        [] \<Rightarrow> e
      | r # _ \<Rightarrow> \<lparr>kind = kind e, attrs = attrs r ++ attrs e, persistent = True\<rparr>)"

fun apply_pending :: "entity list \<Rightarrow> pending \<Rightarrow> (entity list \<times> entity) option" where
  "apply_pending db (Add e) = (if persistent e then update_row db e else insert_row db e)"
| "apply_pending db (Merge e) = (if has_pk db e then update_row db (merged db e) else insert_row db e)"

text \<open>A commit writes every pending operation in order, or none of them.\<close>

fun apply_all :: "entity list \<Rightarrow> pending list \<Rightarrow> entity list option" where
  "apply_all db [] = Some db"
| "apply_all db (p # ps) =
     (case apply_pending db p of None \<Rightarrow> None | Some (db', e) \<Rightarrow> apply_all db' ps)"

text \<open>\<open>query.filter(...)\<close> and \<open>query.one()\<close>.\<close>

definition query :: "entity list \<Rightarrow> kind \<Rightarrow> (string \<times> pyval) list \<Rightarrow> entity list" where
  "query db k conds = filter (\<lambda>r. kind r = k \<and> (\<forall>(c, v) \<in> set conds. col r c = v)) db"

fun one :: "entity list \<Rightarrow> exn + entity" where
  "one [] = Inl NoResultFound"
| "one [r] = Inr r"
| "one rs = Inl MultipleResultsFound"

subsection \<open>The loader object\<close>

datatype level = DEBUG | INFO | WARNING | ERROR

type_synonym linedata = "(string \<times> pyval) list"

datatype logarg = AVal pyval | AObj entity | ARec linedata

text \<open>
  A log entry is the level, the format string of the source (without its double quotes)
  and its arguments; \<open>log.exception(e)\<close> is its own entry. The message of \<open>process\<close>
  about a failed insert is marked, that of \<open>individual_commit\<close> has the same words. Of the debug lines only those of the flush path
  are kept.
\<close>

datatype logmsg = Log level string "logarg list" | LogException exn

text \<open>
  The fields of \<open>Analyzer.__init__\<close>. \<open>now\<close> is what \<open>time.time()\<close> returns while
  the current record is processed; \<open>session_pending\<close> and \<open>db\<close> are the SQLAlchemy
  session (uncommitted operations) and the committed store. The undocumented \<open>perf\<close>
  timing option is off. The store never loses its connection here, so
  \<open>check_connection\<close> finds it open and the \<open>OperationalError\<close> handlers are not entered.
\<close>

record loader =
  batch :: bool
  now :: real
  flush_every :: int
  flush_count :: int
  last_flush :: real
  wf_id_cache :: "pyval \<rightharpoonup> pyval"
  root_wf_id_cache :: "pyval \<rightharpoonup> pyval"
  job_id_cache :: "(pyval \<times> pyval) \<rightharpoonup> pyval"
  job_instance_id_cache :: "(pyval \<times> pyval) \<rightharpoonup> pyval"
  host_cache :: "(pyval \<times> pyval) \<rightharpoonup> bool"
  hosts_written_cache :: "((pyval \<times> pyval \<times> pyval \<times> pyval) \<rightharpoonup> bool) option"
  batch_events :: "entity list"
  update_events :: "entity list"
  host_map_events :: "entity list"
  task_map_flush :: "pyval \<rightharpoonup> bool"
  task_edge_flush :: "pyval \<rightharpoonup> bool"
  session_pending :: "pending list"
  db :: "entity list"
  logged :: "logmsg list"

definition init :: "bool \<Rightarrow> real \<Rightarrow> entity list \<Rightarrow> loader" where
  "init b t store =
     \<lparr>batch = b, now = t, flush_every = 1000, flush_count = 0, last_flush = t,
      wf_id_cache = Map.empty, root_wf_id_cache = Map.empty, job_id_cache = Map.empty,
      job_instance_id_cache = Map.empty, host_cache = Map.empty, hosts_written_cache = None,
      batch_events = [], update_events = [], host_map_events = [],
      task_map_flush = Map.empty, task_edge_flush = Map.empty,
      session_pending = [], db = store, logged = []\<rparr>"

definition say :: "logmsg \<Rightarrow> loader \<Rightarrow> loader" where
  "say m s = s\<lparr>logged := logged s @ [m]\<rparr>"

text \<open>Sequencing of two steps: an exception of the first skips the second.\<close>

definition bindE :: "(exn + 'a) \<times> loader \<Rightarrow> ('a \<Rightarrow> loader \<Rightarrow> (exn + 'b) \<times> loader) \<Rightarrow> (exn + 'b) \<times> loader" where
  "bindE r f = (case r of (Inl e, s) \<Rightarrow> (Inl e, s) | (Inr a, s) \<Rightarrow> f a s)"

text \<open>An attribute read inside a method: AttributeError leaves the method.\<close>

definition readE :: "entity \<Rightarrow> string \<Rightarrow> loader \<Rightarrow> (exn + pyval) \<times> loader" where
  "readE o' a s = (getattr o' a, s)"

text \<open>\<open>linedata[k]\<close>: KeyError when the record has no such field.\<close>

definition itemE :: "linedata \<Rightarrow> string \<Rightarrow> loader \<Rightarrow> (exn + pyval) \<times> loader" where
  "itemE l k s = ((case map_of l k of None \<Rightarrow> Inl KeyError | Some v \<Rightarrow> Inr v), s)"

subsection \<open>linedataToObject\<close>

definition attr_remap :: "(string \<times> string) list" where
  "attr_remap =
     [(''xwf_id'', ''wf_uuid''), (''parent_xwf_id'', ''parent_wf_id''),
      (''task_id'', ''abs_task_id''),
      (''child_task_id'', ''child_abs_task_id''), (''parent_task_id'', ''parent_abs_task_id''),
      (''job_id'', ''exec_job_id''),
      (''child_job_id'', ''child_exec_job_id''), (''parent_job_id'', ''parent_exec_job_id''),
      (''job_inst_id'', ''job_submit_seq''), (''js_id'', ''jobstate_submit_seq''),
      (''cluster_dur'', ''cluster_duration''), (''local_dur'', ''local_duration''),
      (''inv_id'', ''task_submit_seq''), (''dur'', ''remote_duration'')]"

definition attr_name :: "string \<Rightarrow> string" where
  "attr_name k = (case map_of attr_remap (undot k) of Some a \<Rightarrow> a | None \<Rightarrow> undot k)"

text \<open>
  The loop over \<open>linedata.items()\<close>, in the order of the list. \<open>level\<close> is skipped, the
  name is undotted and remapped, an \<open>argv\<close> value that is not None is escaped (which
  raises on a value without \<open>replace\<close>), and a \<open>setattr\<close> that raises is logged.
\<close>

fun assign_fields :: "runtime \<Rightarrow> linedata \<Rightarrow> entity \<Rightarrow> loader \<Rightarrow> (exn + entity) \<times> loader" where
  "assign_fields rt [] o' s = (Inr o', s)"
| "assign_fields rt ((k, v) # rest) o' s =
     (if k = ''level'' then assign_fields rt rest o' s
      else case (if attr_name k = ''argv'' then sanitize_argv v else Inr v) of
             Inl e \<Rightarrow> (Inl e, s)
           | Inr v' \<Rightarrow>
               if rejects_attr rt (kind o') (attr_name k) v'
               then assign_fields rt rest o'
                      (say (Log ERROR ''Unable to process attribute %s with values: %s''
                              [AVal (PStr k), AVal v']) s)
               else assign_fields rt rest (set_attr o' (attr_name k) v') s)"

text \<open>One global re-assignment: \<open>if hasattr(o, a) [and o.a != None]: o.a = conv(o.a)\<close>.\<close>

definition coerce :: "(pyval \<Rightarrow> exn + pyval) \<Rightarrow> bool \<Rightarrow> string \<Rightarrow> entity \<Rightarrow> exn + entity" where
  "coerce conv skip_none a o' =
     (if hasattr o' a then
        (case getattr o' a of
           Inl e \<Rightarrow> Inl e
         | Inr v \<Rightarrow> if skip_none \<and> v = PNone then Inr o'
                    else (case conv v of Inl e \<Rightarrow> Inl e | Inr w \<Rightarrow> Inr (set_attr o' a w)))
      else Inr o')"

definition int_val :: "runtime \<Rightarrow> pyval \<Rightarrow> exn + pyval" where
  "int_val rt v = (case py_int rt v of Inl e \<Rightarrow> Inl e | Inr i \<Rightarrow> Inr (PInt i))"

definition thenX :: "exn + 'a \<Rightarrow> ('a \<Rightarrow> exn + 'b) \<Rightarrow> exn + 'b" where
  "thenX r f = (case r of Inl e \<Rightarrow> Inl e | Inr a \<Rightarrow> f a)"

definition coercions :: "runtime \<Rightarrow> entity \<Rightarrow> exn + entity" where
  "coercions rt o' =
     thenX (coerce (py_float rt) False ''ts'' o') (\<lambda>o1.
     thenX (coerce (py_float rt) True ''start_time'' o1) (\<lambda>o2.
     thenX (coerce (py_float rt) True ''cluster_start_time'' o2) (\<lambda>o3.
     thenX (coerce (py_float rt) True ''duration'' o3) (\<lambda>o4.
     coerce (int_val rt) True ''restart_count'' o4))))"

definition linedataToObject :: "runtime \<Rightarrow> linedata \<Rightarrow> entity \<Rightarrow> loader \<Rightarrow> (exn + entity) \<times> loader" where
  "linedataToObject rt l o' s =
     bindE (assign_fields rt l o' s) (\<lambda>o1 s1. (coercions rt o1, s1))"

subsection \<open>The session\<close>

text \<open>
  Modelled from the spec: \<open>session.commit\<close>, \<open>session.rollback\<close> and the
  \<open>commit_to_db\<close> and \<open>merge_to_db\<close> methods of the schema's base class (not part of
  the loader's module). A commit applies the pending operations as one transaction and
  raises IntegrityError when one of them violates a constraint; the pending operations
  then stay in the session until it is rolled back. \<open>commit_to_db\<close> adds the object and
  commits, \<open>merge_to_db\<close> merges it and commits unless \<open>batch\<close> is set. After its
  commit the object carries its surrogate key.
\<close>

definition commit :: "loader \<Rightarrow> (exn + unit) \<times> loader" where
  "commit s =
     (case apply_all (db s) (session_pending s) of
        None \<Rightarrow> (Inl IntegrityError, s)
      | Some db' \<Rightarrow> (Inr (), s\<lparr>db := db', session_pending := []\<rparr>))"

definition rollback :: "loader \<Rightarrow> loader" where
  "rollback s = s\<lparr>session_pending := []\<rparr>"

definition write_last :: "pending \<Rightarrow> loader \<Rightarrow> (exn + entity) \<times> loader" where
  "write_last p s =
     (case apply_all (db s) (session_pending s) of
        None \<Rightarrow> (Inl IntegrityError, s\<lparr>session_pending := session_pending s @ [p]\<rparr>)
      | Some db1 \<Rightarrow>
          (case apply_pending db1 p of
             None \<Rightarrow> (Inl IntegrityError, s\<lparr>session_pending := session_pending s @ [p]\<rparr>)
           | Some (db2, e') \<Rightarrow> (Inr e', s\<lparr>db := db2, session_pending := []\<rparr>)))"

definition commit_to_db :: "entity \<Rightarrow> loader \<Rightarrow> (exn + entity) \<times> loader" where
  "commit_to_db e s = write_last (Add e) s"

definition merge_to_db :: "entity \<Rightarrow> bool \<Rightarrow> loader \<Rightarrow> (exn + entity) \<times> loader" where
  "merge_to_db e b s =
     (if b then (Inr e, s\<lparr>session_pending := session_pending s @ [Merge e]\<rparr>)
      else write_last (Merge e) s)"

subsection \<open>Key resolvers and their caches\<close>

text \<open>The two log lines shared by the resolvers' \<open>except\<close> clauses.\<close>

definition lookup_failed :: "exn \<Rightarrow> string \<Rightarrow> string \<Rightarrow> logarg list \<Rightarrow> logmsg" where
  "lookup_failed e multiple nothing args =
     Log ERROR (if e = MultipleResultsFound then multiple else nothing) args"

definition wf_uuid_to_id :: "pyval \<Rightarrow> loader \<Rightarrow> pyval \<times> loader" where
  "wf_uuid_to_id wf_uuid s =
     (case wf_id_cache s wf_uuid of
        Some i \<Rightarrow> (i, s)
      | None \<Rightarrow>
          (case one (query (db s) Workflow [(''wf_uuid'', wf_uuid)]) of
             Inr r \<Rightarrow> (col r ''wf_id'', s\<lparr>wf_id_cache := (wf_id_cache s)(wf_uuid \<mapsto> col r ''wf_id'')\<rparr>)
           | Inl e \<Rightarrow> (PNone, say (lookup_failed e ''Multiple wf_id results for wf_uuid %s : %s''
                                     ''No wf_id results for wf_uuid %s : %s'' [AVal wf_uuid]) s)))"

definition wf_uuid_to_root_id :: "pyval \<Rightarrow> loader \<Rightarrow> pyval \<times> loader" where
  "wf_uuid_to_root_id wf_uuid s =
     (case root_wf_id_cache s wf_uuid of
        Some i \<Rightarrow> (i, s)
      | None \<Rightarrow>
          (case one (query (db s) Workflow [(''wf_uuid'', wf_uuid)]) of
             Inr r \<Rightarrow> (col r ''root_wf_id'',
                       s\<lparr>root_wf_id_cache := (root_wf_id_cache s)(wf_uuid \<mapsto> col r ''root_wf_id'')\<rparr>)
           | Inl e \<Rightarrow> (PNone, say (lookup_failed e ''Multiple wf_id results for wf_uuid %s : %s''
                                     ''No wf_id results for wf_uuid %s : %s'' [AVal wf_uuid]) s)))"

definition get_job_id :: "pyval \<Rightarrow> pyval \<Rightarrow> loader \<Rightarrow> pyval \<times> loader" where
  "get_job_id wf_id exec_id s =
     (case job_id_cache s (wf_id, exec_id) of
        Some i \<Rightarrow> (i, s)
      | None \<Rightarrow>
          (case one (query (db s) Job [(''wf_id'', wf_id), (''exec_job_id'', exec_id)]) of
             Inr r \<Rightarrow> (col r ''job_id'',
                       s\<lparr>job_id_cache := (job_id_cache s)((wf_id, exec_id) \<mapsto> col r ''job_id'')\<rparr>)
           | Inl e \<Rightarrow> (PNone, say (lookup_failed e ''Multiple results found for wf_uuid/exec_job_id: %s/%s''
                                     ''No results found for wf_uuid/exec_job_id: %s/%s''
                                     [AVal wf_id, AVal exec_id]) s)))"

text \<open>
  \<open>get_job_instance_id(o, quiet)\<close> reads \<open>o.wf_uuid\<close>, \<open>o.exec_job_id\<close> and
  \<open>o.job_submit_seq\<close>, in this order, each of which raises on an object without it.
\<close>

definition get_job_instance_id :: "entity \<Rightarrow> bool \<Rightarrow> loader \<Rightarrow> (exn + pyval) \<times> loader" where
  "get_job_instance_id o' quiet s =
     bindE (readE o' ''wf_uuid'' s) (\<lambda>wf_uuid s.
     case wf_uuid_to_id wf_uuid s of (wf_id, s) \<Rightarrow>
     bindE (readE o' ''exec_job_id'' s) (\<lambda>exec_id s.
     case get_job_id wf_id exec_id s of (cached_job_id, s) \<Rightarrow>
     bindE (readE o' ''job_submit_seq'' s) (\<lambda>seq s.
     case job_instance_id_cache s (cached_job_id, seq) of
       Some i \<Rightarrow> (Inr i, s)
     | None \<Rightarrow>
         (case one (query (db s) JobInstance [(''job_id'', cached_job_id), (''job_submit_seq'', seq)]) of
            Inr r \<Rightarrow> (Inr (col r ''job_instance_id''),
                      s\<lparr>job_instance_id_cache :=
                          (job_instance_id_cache s)((cached_job_id, seq) \<mapsto> col r ''job_instance_id'')\<rparr>)
          | Inl e \<Rightarrow> (Inr PNone,
                      if quiet then s
                      else say (lookup_failed e ''Multple job_instance_id results for tuple %s : %s''
                                  ''No job_instance_id results for tuple %s : %s''
                                  [AVal cached_job_id, AVal seq]) s)))))"

subsection \<open>Host mapping and cache invalidation\<close>

text \<open>
  \<open>map_host_to_job_instance\<close>. Only MultipleResultsFound is caught around the host
  lookup, and nothing around the job instance lookup. The host id of an object that was
  buffered is found by its natural key.
\<close>

definition find_host_id :: "entity \<Rightarrow> loader \<Rightarrow> (exn + entity) \<times> loader" where
  "find_host_id host s =
     (if truthy (col host ''host_id'') then (Inr host, s)
      else case one (query (db s) Host
                      [(''wf_id'', col host ''wf_id''), (''site'', col host ''site''),
                       (''hostname'', col host ''hostname''), (''ip'', col host ''ip'')]) of
             Inr r \<Rightarrow> (Inr (set_attr host ''host_id'' (col r ''host_id'')), s)
           | Inl e \<Rightarrow> if e = MultipleResultsFound
                      then (Inr host, say (Log ERROR ''Multiple host_id results for host: %s'' [AObj host]) s)
                      else (Inl e, s))"

definition map_host_to_job_instance :: "entity \<Rightarrow> loader \<Rightarrow> (exn + unit) \<times> loader" where
  "map_host_to_job_instance host s =
     bindE (readE host ''wf_uuid'' s) (\<lambda>wf_uuid s.
     case wf_uuid_to_id wf_uuid s of (wf_id, s) \<Rightarrow>
     bindE (readE host ''exec_job_id'' s) (\<lambda>exec_id s.
     case get_job_id wf_id exec_id s of (cached_job_id, s) \<Rightarrow>
     bindE (readE host ''job_submit_seq'' s) (\<lambda>seq s.
     if host_cache s (cached_job_id, seq) \<noteq> None then (Inr (), s)
     else
       bindE (find_host_id host s) (\<lambda>host s.
       bindE (one (query (db s) JobInstance [(''job_id'', cached_job_id), (''job_submit_seq'', seq)]), s)
         (\<lambda>job_instance s.
       bindE (merge_to_db (set_attr job_instance ''host_id'' (col host ''host_id'')) (batch s) s)
         (\<lambda>_ s.
       (Inr (), s\<lparr>host_cache := (host_cache s)((cached_job_id, seq) \<mapsto> True)\<rparr>)))))))"

text \<open>
  \<open>flushCaches(wfs)\<close>: each loop deletes the keys its test selects. The tests are the
  source's: the job instance cache and the host cache are keyed by (job id, submit
  sequence), and their first component is compared with \<open>wfs.wf_id\<close> and with
  \<open>wfs.wf_uuid\<close>.
\<close>

definition flushCaches :: "entity \<Rightarrow> loader \<Rightarrow> (exn + unit) \<times> loader" where
  "flushCaches wfs s =
     bindE (readE wfs ''wf_uuid'' s) (\<lambda>wf_uuid s.
     bindE (readE wfs ''wf_id'' s) (\<lambda>wf_id s.
     (Inr (),
      s\<lparr>wf_id_cache := (\<lambda>k. if k = wf_uuid then None else wf_id_cache s k),
        root_wf_id_cache := (\<lambda>k. if k = wf_uuid then None else root_wf_id_cache s k),
        job_instance_id_cache := (\<lambda>k. if fst k = wf_id then None else job_instance_id_cache s k),
        host_cache := (\<lambda>k. if fst k = wf_uuid then None else host_cache s k),
        job_id_cache := (\<lambda>k. if fst k = wf_id then None else job_id_cache s k),
        task_map_flush := (task_map_flush s)(wf_uuid := None)\<rparr>)))"

subsection \<open>Batching and flushing\<close>

definition reset_flush_state :: "loader \<Rightarrow> loader" where
  "reset_flush_state s = (if batch s then s\<lparr>flush_count := 0, last_flush := now s\<rparr> else s)"

text \<open>A \<open>for\<close> loop whose body may raise.\<close>

fun forE :: "('a \<Rightarrow> loader \<Rightarrow> (exn + unit) \<times> loader) \<Rightarrow> 'a list \<Rightarrow> loader \<Rightarrow> (exn + unit) \<times> loader" where
  "forE f [] s = (Inr (), s)"
| "forE f (x # xs) s = (case f x s of (Inl e, s1) \<Rightarrow> (Inl e, s1) | (Inr u, s1) \<Rightarrow> forE f xs s1)"

definition individual_commit :: "entity \<Rightarrow> bool \<Rightarrow> loader \<Rightarrow> (exn + unit) \<times> loader" where
  "individual_commit event merge s =
     (case (if merge then merge_to_db event False s else commit_to_db event s) of
        (Inr e', s1) \<Rightarrow> (Inr (), s1)
      | (Inl e, s1) \<Rightarrow>
          if e = IntegrityError
          then (Inr (), rollback (say (Log ERROR ''Insert failed for event %s'' [AObj event])
                                   (say (LogException e) s1)))
          else (Inl e, s1))"

text \<open>The first loop of \<open>hard_flush\<close>, over the buffered inserts; it collects the
  workflow end events.\<close>

fun flush_inserts :: "bool \<Rightarrow> entity list \<Rightarrow> entity list \<Rightarrow> loader \<Rightarrow> (exn + entity list) \<times> loader" where
  "flush_inserts bf [] end_event s = (Inr end_event, s)"
| "flush_inserts bf (event # rest) end_event s =
     (case getattr event ''event'' of
        Inl e \<Rightarrow> (Inl e, s)
      | Inr tag \<Rightarrow>
          let ee = (if tag = PStr ''stampede.xwf.end'' then end_event @ [event] else end_event) in
          if bf then flush_inserts bf rest ee (s\<lparr>session_pending := session_pending s @ [Add event]\<rparr>)
          else (case individual_commit event False s of
                  (Inl e, s1) \<Rightarrow> (Inl e, s1)
                | (Inr u, s1) \<Rightarrow> flush_inserts bf rest ee s1))"

text \<open>The second loop, over the buffered updates.\<close>

definition flush_updates :: "bool \<Rightarrow> entity list \<Rightarrow> loader \<Rightarrow> (exn + unit) \<times> loader" where
  "flush_updates bf events s =
     forE (\<lambda>event s. if bf then (Inr (), s\<lparr>session_pending := session_pending s @ [Merge event]\<rparr>)
                      else individual_commit event True s) events s"

text \<open>What follows the bulk commit: host mappings, cache invalidation for the collected
  end events, clearing of the buffers, the closing commit and the reset of the counters.\<close>

definition flush_tail :: "entity list \<Rightarrow> loader \<Rightarrow> (exn + unit) \<times> loader" where
  "flush_tail end_event s =
     bindE (forE map_host_to_job_instance (host_map_events s) s) (\<lambda>_ s.
     bindE (forE flushCaches end_event s) (\<lambda>_ s.
     bindE (commit (s\<lparr>batch_events := [], update_events := [], host_map_events := []\<rparr>)) (\<lambda>_ s.
     (Inr (), say (Log DEBUG ''Hard flush end'' []) (reset_flush_state s)))))"

definition batch_failed :: "loader \<Rightarrow> loader" where
  "batch_failed s =
     rollback (say (Log ERROR ''Integrity error on batch flush: batch will need to be committed per-event which will take longer'' [])
                (say (LogException IntegrityError) s))"

text \<open>
  \<open>hard_flush(batch_flush)\<close>. When the bulk commit raises IntegrityError the session is
  rolled back and the method calls itself with \<open>batch_flush=False\<close>, then goes on with
  its own tail.
\<close>

function hard_flush :: "bool \<Rightarrow> loader \<Rightarrow> (exn + unit) \<times> loader" where
  "hard_flush bf s0 =
     (if \<not> batch s0 then (Inr (), s0)
      else
        (case flush_inserts bf (batch_events s0) []
                (say (Log DEBUG ''Hard flush: batching=%s'' [AVal (PBool bf)]) s0) of
           (Inl e, s1) \<Rightarrow> (Inl e, s1)
         | (Inr end_event, s1) \<Rightarrow>
             (case flush_updates bf (update_events s1) s1 of
                (Inl e, s2) \<Rightarrow> (Inl e, s2)
              | (Inr u, s2) \<Rightarrow>
                  (case commit s2 of
                     (Inr u, s3) \<Rightarrow> flush_tail end_event s3
                   | (Inl e, s3) \<Rightarrow>
                       (case hard_flush False (batch_failed s3) of
                          (Inl e, s4) \<Rightarrow> (Inl e, s4)
                        | (Inr u, s4) \<Rightarrow> flush_tail end_event s4)))))"
  by pat_completeness auto

definition check_flush :: "loader \<Rightarrow> (exn + unit) \<times> loader" where
  "check_flush s =
     (if \<not> batch s then (Inr (), s)
      else
        let s1 = s\<lparr>flush_count := flush_count s + 1\<rparr> in
        if flush_count s1 \<ge> flush_every s1
        then bindE (hard_flush True s1) (\<lambda>_ s. (Inr (), say (Log DEBUG ''Flush: flush count'' []) s))
        else if now s1 - last_flush s1 > 30
        then bindE (hard_flush True s1) (\<lambda>_ s. (Inr (), say (Log DEBUG ''Flush: time based'' []) s))
        else (Inr (), s1))"

subsection \<open>Event handlers\<close>

text \<open>The common ending of the insert handlers: buffer the object in batched mode, write
  it otherwise.\<close>

definition put :: "entity \<Rightarrow> loader \<Rightarrow> (exn + unit) \<times> loader" where
  "put e s =
     (if batch s then (Inr (), s\<lparr>batch_events := batch_events s @ [e]\<rparr>)
      else bindE (commit_to_db e s) (\<lambda>_ s. (Inr (), s)))"

definition workflow :: "runtime \<Rightarrow> linedata \<Rightarrow> loader \<Rightarrow> (exn + unit) \<times> loader" where
  "workflow rt l s =
     bindE (linedataToObject rt l (new_entity Workflow) s) (\<lambda>wf s.
     bindE (readE wf ''ts'' s) (\<lambda>ts s.
     bindE (readE wf ''argv'' s) (\<lambda>argv s.
     bindE (readE wf ''root_xwf_id'' s) (\<lambda>root s.
     bindE (readE wf ''wf_uuid'' s) (\<lambda>uuid s.
     let wf = set_attr (set_attr wf ''timestamp'' ts) ''planner_arguments'' argv in
     case (if root \<noteq> uuid
           then (case wf_uuid_to_id root s of (i, s) \<Rightarrow> (set_attr wf ''root_wf_id'' i, s))
           else (wf, s)) of (wf, s) \<Rightarrow>
     case (if col wf ''parent_wf_id'' \<noteq> PNone
           then (case wf_uuid_to_id (col wf ''parent_wf_id'') s of
                   (i, s) \<Rightarrow> (set_attr wf ''parent_wf_id'' i, s))
           else (wf, s)) of (wf, s) \<Rightarrow>
     bindE (commit_to_db wf s) (\<lambda>wf s.
     bindE (if root = uuid
            then (case wf_uuid_to_id root s of (i, s) \<Rightarrow> commit_to_db (set_attr wf ''root_wf_id'' i) s)
            else (Inr wf, s)) (\<lambda>wf s.
     (Inr (), if col wf ''root_wf_id'' = PNone
              then say (Log WARNING ''Count not determine root_wf_id for event %s'' [AObj wf]) s
              else s))))))))"

definition wf_state :: "(string \<times> string) list" where
  "wf_state = [(''stampede.xwf.start'', ''WORKFLOW_STARTED''), (''stampede.xwf.end'', ''WORKFLOW_TERMINATED'')]"

definition workflowstate :: "runtime \<Rightarrow> linedata \<Rightarrow> loader \<Rightarrow> (exn + unit) \<times> loader" where
  "workflowstate rt l s =
     bindE (linedataToObject rt l (new_entity Workflowstate) s) (\<lambda>wfs s.
     bindE (readE wfs ''wf_uuid'' s) (\<lambda>uuid s.
     case wf_uuid_to_id uuid s of (i, s) \<Rightarrow>
     bindE (readE wfs ''ts'' s) (\<lambda>ts s.
     bindE (readE wfs ''event'' s) (\<lambda>ev s.
     case (case ev of PStr tag \<Rightarrow> map_of wf_state tag | _ \<Rightarrow> None) of
       None \<Rightarrow> (Inl KeyError, s)
     | Some st \<Rightarrow>
         let wfs = set_attr (set_attr (set_attr wfs ''wf_id'' i) ''timestamp'' ts) ''state'' (PStr st) in
         if batch s then (Inr (), s\<lparr>batch_events := batch_events s @ [wfs]\<rparr>)
         else bindE (commit_to_db wfs s) (\<lambda>wfs s.
              if ev = PStr ''stampede.xwf.end'' then flushCaches wfs s else (Inr (), s))))))"

definition job :: "runtime \<Rightarrow> linedata \<Rightarrow> loader \<Rightarrow> (exn + unit) \<times> loader" where
  "job rt l s =
     bindE (linedataToObject rt l (new_entity Job) s) (\<lambda>j s.
     bindE (readE j ''wf_uuid'' s) (\<lambda>uuid s.
     case wf_uuid_to_id uuid s of (i, s) \<Rightarrow>
     bindE (as_bool rt (col j ''clustered''), s) (\<lambda>c s.
     put (set_attr (set_attr j ''wf_id'' i) ''clustered'' c) s)))"

definition job_edge :: "runtime \<Rightarrow> linedata \<Rightarrow> loader \<Rightarrow> (exn + unit) \<times> loader" where
  "job_edge rt l s =
     bindE (linedataToObject rt l (new_entity JobEdge) s) (\<lambda>je s.
     bindE (readE je ''wf_uuid'' s) (\<lambda>uuid s.
     case wf_uuid_to_id uuid s of (i, s) \<Rightarrow> put (set_attr je ''wf_id'' i) s))"

definition task :: "runtime \<Rightarrow> linedata \<Rightarrow> loader \<Rightarrow> (exn + unit) \<times> loader" where
  "task rt l s =
     bindE (linedataToObject rt l (new_entity Task) s) (\<lambda>t s.
     bindE (readE t ''wf_uuid'' s) (\<lambda>uuid s.
     case wf_uuid_to_id uuid s of (i, s) \<Rightarrow> put (set_attr t ''wf_id'' i) s))"

definition task_edge :: "runtime \<Rightarrow> linedata \<Rightarrow> loader \<Rightarrow> (exn + unit) \<times> loader" where
  "task_edge rt l s =
     bindE (itemE l ''xwf.id'' s) (\<lambda>x s.
     bindE (if task_edge_flush s x = None
            then bindE (if batch s then hard_flush True s else (Inr (), s))
                   (\<lambda>_ s. (Inr (), s\<lparr>task_edge_flush := (task_edge_flush s)(x \<mapsto> True)\<rparr>))
            else (Inr (), s)) (\<lambda>_ s.
     bindE (linedataToObject rt l (new_entity TaskEdge) s) (\<lambda>te s.
     bindE (readE te ''wf_uuid'' s) (\<lambda>uuid s.
     case wf_uuid_to_id uuid s of (i, s) \<Rightarrow> put (set_attr te ''wf_id'' i) s))))"

text \<open>The states of \<open>jobstate\<close>; the two labels are indexed by \<open>int(status) + 1\<close>.\<close>

definition states :: "(string \<times> string list) list" where
  "states =
     [(''stampede.job_inst.pre.start'', [''PRE_SCRIPT_STARTED'', ''PRE_SCRIPT_STARTED'']),
      (''stampede.job_inst.pre.term'', [''PRE_SCRIPT_TERMINATED'', ''PRE_SCRIPT_TERMINATED'']),
      (''stampede.job_inst.pre.end'', [''PRE_SCRIPT_FAILED'', ''PRE_SCRIPT_SUCCESS'']),
      (''stampede.job_inst.submit.end'', [''SUBMIT_FAILED'', ''SUBMIT'']),
      (''stampede.job_inst.main.start'', [''EXECUTE'', ''EXECUTE'']),
      (''stampede.job_inst.main.term'', [''JOB_EVICTED'', ''JOB_TERMINATED'']),
      (''stampede.job_inst.main.end'', [''JOB_FAILURE'', ''JOB_SUCCESS'']),
      (''stampede.job_inst.post.start'', [''POST_SCRIPT_STARTED'', ''POST_SCRIPT_STARTED'']),
      (''stampede.job_inst.post.term'', [''POST_SCRIPT_TERMINATED'', ''POST_SCRIPT_TERMINATED'']),
      (''stampede.job_inst.post.end'', [''POST_SCRIPT_FAILED'', ''POST_SCRIPT_SUCCESS'']),
      (''stampede.job_inst.held.start'', [''JOB_HELD'', ''JOB_HELD'']),
      (''stampede.job_inst.held.end'', [''JOB_RELEASED'', ''JOB_RELEASED'']),
      (''stampede.job_inst.image.info'', [''IMAGE_SIZE'', ''IMAGE_SIZE'']),
      (''stampede.job_inst.abort.info'', [''JOB_ABORTED'', ''JOB_ABORTED'']),
      (''stampede.job_inst.grid.submit.end'', [''GRID_SUBMIT_FAILED'', ''GRID_SUBMIT'']),
      (''stampede.job_inst.globus.submit.end'', [''GLOBUS_SUBMIT_FAILED'', ''GLOBUS_SUBMIT''])]"

text \<open>
  The assignment of \<open>js.state\<close> in \<open>jobstate\<close>: for a tag outside the table the
  upper-cased third segment of the tag, else the entry at \<open>int(js.status) + 1\<close>, where an
  object without \<open>status\<close> first gets status 0.
\<close>

definition assign_state :: "runtime \<Rightarrow> entity \<Rightarrow> exn + entity" where
  "assign_state rt js =
     thenX (getattr js ''event'') (\<lambda>ev.
     case (case ev of PStr tag \<Rightarrow> map_of states tag | _ \<Rightarrow> None) of
       None \<Rightarrow>
         (case ev of
            PStr tag \<Rightarrow> thenX (py_index (split_dot tag) 2)
                          (\<lambda>seg. Inr (set_attr js ''state'' (PStr (upper seg))))
          | _ \<Rightarrow> Inl AttributeError)
     | Some labels \<Rightarrow>
         let js1 = (if hasattr js ''status'' then js else set_attr js ''status'' (PInt 0)) in
         thenX (getattr js1 ''status'') (\<lambda>status.
         thenX (py_int rt status) (\<lambda>i.
         thenX (py_index labels (i + 1)) (\<lambda>label.
         Inr (set_attr js1 ''state'' (PStr label))))))"

definition jobstate :: "runtime \<Rightarrow> linedata \<Rightarrow> loader \<Rightarrow> (exn + unit) \<times> loader" where
  "jobstate rt l s =
     bindE (linedataToObject rt l (new_entity Jobstate) s) (\<lambda>js s.
     bindE (assign_state rt js, s) (\<lambda>js s.
     bindE (get_job_instance_id js False s) (\<lambda>jid s.
     let js = set_attr js ''job_instance_id'' jid in
     if \<not> truthy jid
     then (Inr (), say (Log ERROR ''No job_instance_id for event: %s -%s'' [ARec l, AObj js]) s)
     else bindE (readE js ''ts'' s) (\<lambda>ts s. put (set_attr js ''timestamp'' ts) s))))"

definition job_instance :: "runtime \<Rightarrow> linedata \<Rightarrow> loader \<Rightarrow> (exn + unit) \<times> loader" where
  "job_instance rt l s =
     bindE (linedataToObject rt l (new_entity JobInstance) s) (\<lambda>ji s.
     bindE (readE ji ''wf_uuid'' s) (\<lambda>uuid s.
     case wf_uuid_to_id uuid s of (wf_id, s) \<Rightarrow>
     let ji = set_attr ji ''wf_id'' wf_id in
     if wf_id = PNone
     then (Inr (), say (Log ERROR ''No wf_id associated with wf_uuid %s - can not insert job instance %s''
                          [AVal uuid, AObj ji]) s)
     else
     bindE (readE ji ''exec_job_id'' s) (\<lambda>exec_id s.
     case get_job_id wf_id exec_id s of (job_id, s) \<Rightarrow>
     let ji = set_attr ji ''job_id'' job_id in
     if \<not> truthy job_id
     then (Inr (), say (Log ERROR ''Could not determine job_id for job_instance: %s'' [AObj ji]) s)
     else
     bindE (readE ji ''event'' s) (\<lambda>ev s.
     if ev = PStr ''stampede.job_inst.submit.start'' \<or> ev = PStr ''stampede.job_inst.pre.start''
     then
       bindE (get_job_instance_id ji True s) (\<lambda>iid s.
       bindE (if \<not> truthy iid
              then bindE (commit_to_db ji s) (\<lambda>ji s.
                   bindE (get_job_instance_id ji False s) (\<lambda>_ s. (Inr (), s)))
              else (Inr (), s)) (\<lambda>_ s.
       if ev = PStr ''stampede.job_inst.pre.start'' then jobstate rt l s else (Inr (), s)))
     else if ev = PStr ''stampede.job_inst.main.end'' \<or> ev = PStr ''stampede.job_inst.post.end''
     then
       bindE (get_job_instance_id ji False s) (\<lambda>iid s.
       let ji = set_attr ji ''job_instance_id'' iid in
       bindE (if batch s then (Inr (), s\<lparr>update_events := update_events s @ [ji]\<rparr>)
              else bindE (merge_to_db ji False s) (\<lambda>_ s. (Inr (), s))) (\<lambda>_ s.
       jobstate rt l s))
     else (Inr (), s)))))"

definition invocation :: "runtime \<Rightarrow> linedata \<Rightarrow> loader \<Rightarrow> (exn + unit) \<times> loader" where
  "invocation rt l s =
     bindE (linedataToObject rt l (new_entity Invocation) s) (\<lambda>inv s.
     bindE (readE inv ''wf_uuid'' s) (\<lambda>uuid s.
     case wf_uuid_to_id uuid s of (wf_id, s) \<Rightarrow>
     let inv = set_attr inv ''wf_id'' wf_id in
     bindE (get_job_instance_id inv False s) (\<lambda>jid s.
     let inv = set_attr inv ''job_instance_id'' jid in
     if jid = PNone
     then (Inr (), say (Log ERROR ''Could not determine job_instance_id for invocation: %s'' [AObj inv]) s)
     else put inv s)))"

text \<open>
  \<open>task_map\<close> and \<open>subwf_map\<close> change a row that the session has loaded; the change is
  written by the next commit, which follows at once unless the loader is batching.
\<close>

definition commit_unless_batch :: "loader \<Rightarrow> (exn + unit) \<times> loader" where
  "commit_unless_batch s = (if batch s then (Inr (), s) else commit s)"

definition flush_once :: "(loader \<Rightarrow> pyval \<rightharpoonup> bool) \<Rightarrow> (loader \<Rightarrow> loader) \<Rightarrow> loader \<Rightarrow> pyval \<Rightarrow> (exn + unit) \<times> loader" where
  "flush_once seen mark s x =
     (if seen s x = None
      then bindE (if batch s then hard_flush True s else (Inr (), s)) (\<lambda>_ s. (Inr (), mark s))
      else (Inr (), s))"

definition task_map :: "runtime \<Rightarrow> linedata \<Rightarrow> loader \<Rightarrow> (exn + unit) \<times> loader" where
  "task_map rt l s =
     bindE (itemE l ''xwf.id'' s) (\<lambda>x s.
     bindE (flush_once task_map_flush (\<lambda>s. s\<lparr>task_map_flush := (task_map_flush s)(x \<mapsto> True)\<rparr>) s x) (\<lambda>_ s.
     case wf_uuid_to_id x s of (wf_id, s) \<Rightarrow>
     bindE (itemE l ''job.id'' s) (\<lambda>exec_id s.
     case get_job_id wf_id exec_id s of (job_id, s) \<Rightarrow>
     if \<not> truthy job_id
     then (Inr (), say (Log ERROR ''Could not determine job_id for task map: %s'' [ARec l]) s)
     else
     bindE (itemE l ''task.id'' s) (\<lambda>task_id s.
     case one (query (db s) Task [(''wf_id'', wf_id), (''abs_task_id'', task_id)]) of
       Inl e \<Rightarrow> (Inr (), say (lookup_failed e ''Multiple task results: cant map task: %s ''
                                ''No task found: cant map task: %s '' [ARec l]) s)
     | Inr t \<Rightarrow>
         commit_unless_batch
           (s\<lparr>session_pending := session_pending s @ [Add (set_attr t ''job_id'' job_id)]\<rparr>)))))"

definition subwf_map :: "runtime \<Rightarrow> linedata \<Rightarrow> loader \<Rightarrow> (exn + unit) \<times> loader" where
  "subwf_map rt l s =
     bindE (itemE l ''xwf.id'' s) (\<lambda>x s.
     case wf_uuid_to_id x s of (wf_id, s) \<Rightarrow>
     bindE (itemE l ''subwf.id'' s) (\<lambda>sub s.
     case wf_uuid_to_id sub s of (subwf_id, s) \<Rightarrow>
     bindE (itemE l ''job.id'' s) (\<lambda>exec_id s.
     case get_job_id wf_id exec_id s of (job_id, s) \<Rightarrow>
     bindE (itemE l ''job_inst.id'' s) (\<lambda>seq s.
     case one (query (db s) JobInstance [(''job_id'', job_id), (''job_submit_seq'', seq)]) of
       Inl e \<Rightarrow> (Inr (), say (lookup_failed e ''Multiple job instance results: cant map subwf: %s ''
                                ''No job instance found: cant map subwf: %s '' [ARec l]) s)
     | Inr ji \<Rightarrow>
         commit_unless_batch
           (s\<lparr>session_pending := session_pending s @ [Add (set_attr ji ''subwf_id'' subwf_id)]\<rparr>)))))"

definition host_key :: "entity \<Rightarrow> pyval \<times> pyval \<times> pyval \<times> pyval" where
  "host_key h = (col h ''wf_id'', col h ''site'', col h ''hostname'', col h ''ip'')"

text \<open>The first use of \<open>hosts_written_cache\<close> fills it from the Host table.\<close>

definition seed_hosts :: "loader \<Rightarrow> loader" where
  "seed_hosts s =
     (case hosts_written_cache s of
        Some c \<Rightarrow> s
      | None \<Rightarrow> s\<lparr>hosts_written_cache :=
                     Some (map_of (map (\<lambda>row. (host_key row, True)) (query (db s) Host [])))\<rparr>)"

definition host :: "runtime \<Rightarrow> linedata \<Rightarrow> loader \<Rightarrow> (exn + unit) \<times> loader" where
  "host rt l s =
     bindE (linedataToObject rt l (new_entity Host) s) (\<lambda>h s.
     bindE (readE h ''wf_uuid'' (seed_hosts s)) (\<lambda>uuid s.
     case wf_uuid_to_root_id uuid s of (root_id, s) \<Rightarrow>
     let h = set_attr h ''wf_id'' root_id in
     bindE (case hosts_written_cache s of
              None \<Rightarrow> (Inl AttributeError, s)
            | Some c \<Rightarrow>
                if c (host_key h) = None
                then bindE (if batch s then (Inr h, s\<lparr>batch_events := batch_events s @ [h]\<rparr>)
                            else commit_to_db h s) (\<lambda>h s.
                     (Inr h, s\<lparr>hosts_written_cache :=
                                  Some ((the (hosts_written_cache s))(host_key h \<mapsto> True))\<rparr>))
                else (Inr h, s)) (\<lambda>h s.
     if batch s then (Inr (), s\<lparr>host_map_events := host_map_events s @ [h]\<rparr>)
     else map_host_to_job_instance h s)))"

definition static_end :: "runtime \<Rightarrow> linedata \<Rightarrow> loader \<Rightarrow> (exn + unit) \<times> loader" where
  "static_end rt l s = (if batch s then hard_flush True s else (Inr (), s))"

definition noop :: "runtime \<Rightarrow> linedata \<Rightarrow> loader \<Rightarrow> (exn + unit) \<times> loader" where
  "noop rt l s = (Inr (), s)"

text \<open>
  The join of \<open>online_monitoring_update\<close>: the job instances with the given scheduler id
  whose job has the given name and belongs to the workflow with the given UUID.
\<close>

definition find_instances :: "entity list \<Rightarrow> pyval \<Rightarrow> pyval \<Rightarrow> pyval \<Rightarrow> entity list" where
  "find_instances d wf_uuid dag_job_id sched_id =
     filter (\<lambda>ji. kind ji = JobInstance \<and> col ji ''sched_id'' = sched_id \<and>
               (\<exists>j \<in> set d. kind j = Job \<and> col j ''job_id'' = col ji ''job_id'' \<and>
                  col j ''exec_job_id'' = dag_job_id \<and>
                  (\<exists>w \<in> set d. kind w = Workflow \<and> col w ''wf_id'' = col j ''wf_id'' \<and>
                     col w ''wf_uuid'' = wf_uuid))) d"

definition online_monitoring_update :: "runtime \<Rightarrow> linedata \<Rightarrow> loader \<Rightarrow> (exn + unit) \<times> loader" where
  "online_monitoring_update rt l s =
     bindE (itemE l ''wf_uuid'' s) (\<lambda>wf_uuid s.
     bindE (itemE l ''dag_job_id'' s) (\<lambda>dag_job_id s.
     bindE (itemE l ''sched_id'' s) (\<lambda>sched_id s.
     case find_instances (db s) wf_uuid dag_job_id sched_id of
       [] \<Rightarrow> (Inr (), say (Log INFO ''We have None when looking for job_instance_id: (%s, %s, %s)''
                            [AVal wf_uuid, AVal dag_job_id, AVal sched_id]) s)
     | ji # _ \<Rightarrow>
         bindE (int_val rt (col ji ''job_instance_id''), s) (\<lambda>jid s.
         bindE (linedataToObject rt l (new_entity JobMetrics) s) (\<lambda>m s.
         let m = set_attr m ''job_instance_id'' jid in
         case query (db s) JobMetrics [(''dag_job_id'', dag_job_id), (''job_instance_id'', jid)] of
           [] \<Rightarrow> bindE (commit_to_db m s) (\<lambda>_ s. (Inr (), s))
         | r # _ \<Rightarrow> bindE (merge_to_db (set_attr m ''job_metrics_id'' (col r ''job_metrics_id'')) False s)
                      (\<lambda>_ s. (Inr (), s)))))))"

subsection \<open>Dispatch\<close>

datatype handler =
    H_workflow | H_task_map | H_noop | H_static_end | H_workflowstate | H_subwf_map
  | H_task | H_task_edge | H_job | H_job_edge | H_job_instance | H_jobstate | H_host
  | H_invocation | H_online_monitoring_update

definition eventMap :: "(string \<times> handler) list" where
  "eventMap =
     [(''stampede.wf.plan'', H_workflow),
      (''stampede.wf.map.task_job'', H_task_map),
      (''stampede.static.start'', H_noop),
      (''stampede.static.end'', H_static_end),
      (''stampede.xwf.start'', H_workflowstate),
      (''stampede.xwf.end'', H_workflowstate),
      (''stampede.xwf.map.subwf_job'', H_subwf_map),
      (''stampede.task.info'', H_task),
      (''stampede.task.edge'', H_task_edge),
      (''stampede.job.info'', H_job),
      (''stampede.job.edge'', H_job_edge),
      (''stampede.job_inst.pre.start'', H_job_instance),
      (''stampede.job_inst.pre.term'', H_jobstate),
      (''stampede.job_inst.pre.end'', H_jobstate),
      (''stampede.job_inst.submit.start'', H_job_instance),
      (''stampede.job_inst.submit.end'', H_jobstate),
      (''stampede.job_inst.held.start'', H_jobstate),
      (''stampede.job_inst.held.end'', H_jobstate),
      (''stampede.job_inst.main.start'', H_jobstate),
      (''stampede.job_inst.main.term'', H_jobstate),
      (''stampede.job_inst.main.end'', H_job_instance),
      (''stampede.job_inst.post.start'', H_jobstate),
      (''stampede.job_inst.post.term'', H_jobstate),
      (''stampede.job_inst.post.end'', H_job_instance),
      (''stampede.job_inst.host.info'', H_host),
      (''stampede.job_inst.image.info'', H_jobstate),
      (''stampede.job_inst.abort.info'', H_jobstate),
      (''stampede.job_inst.grid.submit.start'', H_noop),
      (''stampede.job_inst.grid.submit.end'', H_jobstate),
      (''stampede.job_inst.globus.submit.start'', H_noop),
      (''stampede.job_inst.globus.submit.end'', H_jobstate),
      (''stampede.inv.start'', H_noop),
      (''stampede.inv.end'', H_invocation),
      (''stampede.job.monitoring'', H_online_monitoring_update)]"

fun run_handler :: "handler \<Rightarrow> runtime \<Rightarrow> linedata \<Rightarrow> loader \<Rightarrow> (exn + unit) \<times> loader" where
  "run_handler H_workflow = workflow"
| "run_handler H_task_map = task_map"
| "run_handler H_noop = noop"
| "run_handler H_static_end = static_end"
| "run_handler H_workflowstate = workflowstate"
| "run_handler H_subwf_map = subwf_map"
| "run_handler H_task = task"
| "run_handler H_task_edge = task_edge"
| "run_handler H_job = job"
| "run_handler H_job_edge = job_edge"
| "run_handler H_job_instance = job_instance"
| "run_handler H_jobstate = jobstate"
| "run_handler H_host = host"
| "run_handler H_invocation = invocation"
| "run_handler H_online_monitoring_update = online_monitoring_update"

text \<open>The body of the \<open>try\<close> in \<open>process\<close>: \<open>self.eventMap[linedata['event']](linedata)\<close>.\<close>

definition dispatch :: "runtime \<Rightarrow> linedata \<Rightarrow> loader \<Rightarrow> (exn + unit) \<times> loader" where
  "dispatch rt l s =
     bindE (itemE l ''event'' s) (\<lambda>ev s.
     case (case ev of PStr tag \<Rightarrow> map_of eventMap tag | _ \<Rightarrow> None) of
       None \<Rightarrow> (Inl KeyError, s)
     | Some h \<Rightarrow> run_handler h rt l s)"

text \<open>The \<open>except KeyError\<close> clause.\<close>

definition on_KeyError :: "runtime \<Rightarrow> linedata \<Rightarrow> loader \<Rightarrow> (exn + unit) \<times> loader" where
  "on_KeyError rt l s =
     bindE (itemE l ''event'' s) (\<lambda>ev s.
     case ev of
       PStr tag \<Rightarrow>
         if startswith tag ''stampede.job_inst.''
         then jobstate rt l (say (Log WARNING ''Corner case jobstate event: %s'' [AVal ev]) s)
         else (Inr (), say (Log ERROR ''No handler for event type %s defined'' [AVal ev]) s)
     | _ \<Rightarrow> (Inl AttributeError, s))"

text \<open>The \<open>except exc.IntegrityError\<close> clause.\<close>

definition on_IntegrityError :: "linedata \<Rightarrow> loader \<Rightarrow> (exn + unit) \<times> loader" where
  "on_IntegrityError l s =
     bindE (itemE l ''event'' (say (LogException IntegrityError) s)) (\<lambda>ev s.
     (Inr (), rollback (say (Log ERROR ''Insert failed for event %s (process)'' [AVal ev]) s)))"

text \<open>The \<open>try\<close> statement of \<open>process\<close>: an exception of a handler that no clause
  names, and an exception raised inside a clause, leave \<open>process\<close>.\<close>

definition try_dispatch :: "runtime \<Rightarrow> linedata \<Rightarrow> loader \<Rightarrow> (exn + unit) \<times> loader" where
  "try_dispatch rt l s =
     (case dispatch rt l s of
        (Inr u, s1) \<Rightarrow> (Inr u, s1)
      | (Inl e, s1) \<Rightarrow>
          if e = KeyError then on_KeyError rt l s1
          else if e = IntegrityError then on_IntegrityError l s1
          else (Inl e, s1))"

definition process :: "runtime \<Rightarrow> linedata \<Rightarrow> loader \<Rightarrow> (exn + unit) \<times> loader" where
  "process rt l s = bindE (try_dispatch rt l s) (\<lambda>_ s. check_flush s)"

definition finish :: "loader \<Rightarrow> (exn + unit) \<times> loader" where
  "finish s =
     (if batch s then hard_flush True (say (Log INFO ''Executing final flush'' []) s) else (Inr (), s))"

text \<open>The feeder: one call of \<open>process\<close> per record, at the time the record arrives; an
  exception that leaves \<open>process\<close> ends the run.\<close>

fun feed :: "runtime \<Rightarrow> (real \<times> linedata) list \<Rightarrow> loader \<Rightarrow> (exn + unit) \<times> loader" where
  "feed rt [] s = (Inr (), s)"
| "feed rt ((t, l) # rest) s =
     (case process rt l (s\<lparr>now := t\<rparr>) of
        (Inl e, s1) \<Rightarrow> (Inl e, s1)
      | (Inr u, s1) \<Rightarrow> feed rt rest s1)"

subsection \<open>A runtime for concrete runs\<close>

text \<open>
  In the concrete runs below numbers arrive as numbers: no string is a number, no
  attribute is rejected, and \<open>as_bool\<close> accepts booleans, integers and None-free flags.
\<close>

definition plain_runtime :: runtime where
  "plain_runtime =
     \<lparr>float_of_str = (\<lambda>s. None), int_of_str = (\<lambda>s. None),
      rejects_attr = (\<lambda>k a v. False),
      as_bool = (\<lambda>v. case v of PBool b \<Rightarrow> Inr (PBool b) | PInt i \<Rightarrow> Inr (PBool (i \<noteq> 0))
                         | _ \<Rightarrow> Inl ValueError)\<rparr>"

text \<open>The object \<open>linedataToObject\<close> builds from a record, when it builds one.\<close>

definition object_of :: "runtime \<Rightarrow> kind \<Rightarrow> linedata \<Rightarrow> exn + entity" where
  "object_of rt k l = fst (linedataToObject rt l (new_entity k) (init False 0 []))"

text \<open>A job state object as \<open>linedataToObject\<close> leaves it for a record with the given
  event tag and, when there is one, the given status.\<close>

definition js_of :: "string \<Rightarrow> pyval option \<Rightarrow> entity" where
  "js_of tag status =
     (case status of
        None \<Rightarrow> set_attr (new_entity Jobstate) ''event'' (PStr tag)
      | Some v \<Rightarrow> set_attr (set_attr (new_entity Jobstate) ''event'' (PStr tag)) ''status'' v)"

subsection \<open>Sample records\<close>

text \<open>BP records as the monitoring daemon writes them, with the fields the handlers use.\<close>

definition wf_plan :: "string \<Rightarrow> linedata" where
  "wf_plan w =
     [(''event'', PStr ''stampede.wf.plan''), (''xwf.id'', PStr w), (''root.xwf.id'', PStr w),
      (''ts'', PInt 0), (''argv'', PStr ''-v'')]"

definition job_info :: "string \<Rightarrow> string \<Rightarrow> linedata" where
  "job_info w j =
     [(''event'', PStr ''stampede.job.info''), (''xwf.id'', PStr w), (''job.id'', PStr j),
      (''clustered'', PInt 0), (''ts'', PInt 1)]"

definition job_inst :: "string \<Rightarrow> string \<Rightarrow> string \<Rightarrow> linedata" where
  "job_inst tag w j =
     [(''event'', PStr tag), (''xwf.id'', PStr w), (''job.id'', PStr j),
      (''job_inst.id'', PInt 1), (''ts'', PInt 2)]"

definition host_info :: "string \<Rightarrow> string \<Rightarrow> linedata" where
  "host_info w j =
     [(''event'', PStr ''stampede.job_inst.host.info''), (''xwf.id'', PStr w), (''job.id'', PStr j),
      (''job_inst.id'', PInt 1), (''site'', PStr ''local''), (''hostname'', PStr ''n1''),
      (''ip'', PStr ''10.0.0.1''), (''ts'', PInt 2)]"

definition xwf :: "string \<Rightarrow> string \<Rightarrow> linedata" where
  "xwf tag w = [(''event'', PStr tag), (''xwf.id'', PStr w), (''ts'', PInt 9)]"

text \<open>Two workflows with one job and one submitted job instance each, a host for the
  instance of the first, and then the end of the first workflow.\<close>

definition two_workflows :: "(real \<times> linedata) list" where
  "two_workflows =
     [(0, wf_plan ''W1''), (0, wf_plan ''W2''),
      (1, job_info ''W2'' ''jA''), (1, job_info ''W1'' ''jB''),
      (2, job_inst ''stampede.job_inst.submit.start'' ''W2'' ''jA''),
      (2, job_inst ''stampede.job_inst.submit.start'' ''W1'' ''jB''),
      (3, host_info ''W1'' ''jB'')]"

text \<open>A host record for a job that was planned but whose instance was never submitted.\<close>

definition host_before_submit :: "(real \<times> linedata) list" where
  "host_before_submit = [(0, wf_plan ''W1''), (1, job_info ''W1'' ''j1''), (2, host_info ''W1'' ''j1'')]"

subsection \<open>Observing flushes\<close>

text \<open>Every call of \<open>hard_flush\<close> in batched mode writes its \<open>Hard flush\<close> debug line,
  and nothing else writes it: the number of these lines is the number of flushes.\<close>

definition is_flush_line :: "logmsg \<Rightarrow> bool" where
  "is_flush_line m = (case m of Log lv fmt args \<Rightarrow> fmt = ''Hard flush: batching=%s'' | LogException e \<Rightarrow> False)"

definition flushes :: "loader \<Rightarrow> nat" where
  "flushes s = length (filter is_flush_line (logged s))"

text \<open>The handlers that call \<open>hard_flush\<close> themselves.\<close>

definition forces_flush :: "linedata \<Rightarrow> bool" where
  "forces_flush l =
     (case map_of l ''event'' of
        Some (PStr tag) \<Rightarrow> map_of eventMap tag \<in> {Some H_static_end, Some H_task_map, Some H_task_edge}
      | _ \<Rightarrow> False)"

text \<open>Two states of the loader with the same mode, clock, counters and number of flushes.\<close>

definition same_flush_state :: "loader \<Rightarrow> loader \<Rightarrow> bool" where
  "same_flush_state s s' =
     (batch s' = batch s \<and> now s' = now s \<and> flush_every s' = flush_every s \<and>
      flush_count s' = flush_count s \<and> last_flush s' = last_flush s \<and> flushes s' = flushes s)"

subsection \<open>Fields of a record\<close>

text \<open>The value \<open>linedataToObject\<close> passes to \<open>setattr\<close> for a field, when the escaping
  of an \<open>argv\<close> value does not raise.\<close>

definition clean :: "string \<Rightarrow> pyval \<Rightarrow> pyval" where
  "clean k v = (if attr_name k = ''argv'' then (case sanitize_argv v of Inr w \<Rightarrow> w | Inl e \<Rightarrow> v) else v)"

text \<open>A field whose \<open>setattr\<close> raises on an object of class \<open>kd\<close>.\<close>

definition rejected :: "runtime \<Rightarrow> kind \<Rightarrow> string \<times> pyval \<Rightarrow> bool" where
  "rejected rt kd kv =
     (fst kv \<noteq> ''level'' \<and> (attr_name (fst kv) = ''argv'' \<longrightarrow> sanitize_argv (snd kv) \<noteq> Inl AttributeError)
      \<and> rejects_attr rt kd (attr_name (fst kv)) (clean (fst kv) (snd kv)))"

definition assigned :: "entity \<Rightarrow> string \<times> pyval \<Rightarrow> entity" where
  "assigned o' kv = set_attr o' (attr_name (fst kv)) (clean (fst kv) (snd kv))"

definition rejection :: "string \<times> pyval \<Rightarrow> logmsg" where
  "rejection kv =
     Log ERROR ''Unable to process attribute %s with values: %s''
       [AVal (PStr (fst kv)), AVal (clean (fst kv) (snd kv))]"

section \<open>Properties\<close>

subsection \<open>Termination of the flush\<close>

lemma individual_commit_pending:
  "individual_commit event m s = (Inr u, s1) \<Longrightarrow> session_pending s1 = []"
  by (auto simp: individual_commit_def merge_to_db_def commit_to_db_def write_last_def rollback_def say_def
      split: if_splits option.splits prod.splits sum.splits)

lemma flush_inserts_pending:
  "flush_inserts False events ee s = (Inr r, s1) \<Longrightarrow> session_pending s = [] \<Longrightarrow> session_pending s1 = []"
proof (induction events arbitrary: ee s)
  case Nil
  then show ?case by simp
next
  case (Cons event rest)
  then show ?case
    by (auto simp: Let_def split: sum.splits prod.splits dest: individual_commit_pending)
qed

lemma forE_individual_pending:
  "forE (\<lambda>event s. individual_commit event True s) events s = (Inr r, s1) \<Longrightarrow>
   session_pending s = [] \<Longrightarrow> session_pending s1 = []"
proof (induction events arbitrary: s)
  case Nil
  then show ?case by simp
next
  case (Cons event rest)
  then show ?case
    by (auto split: sum.splits prod.splits dest: individual_commit_pending)
qed

lemma commit_empty: "session_pending s = [] \<Longrightarrow> commit s = (Inr (), s)"
  by (simp add: commit_def)

termination hard_flush
proof (relation "measure (\<lambda>(bf, s). if bf then 2 else if session_pending s \<noteq> [] then 1 else 0)")
  show "wf (measure (\<lambda>(bf, s). if bf then 2 else if session_pending s \<noteq> [] then 1 else 0))"
    by simp
next
  fix bf s0 x s1 end_event xa s2 u xb s3 e
  assume b: "\<not> \<not> batch s0"
    and ins: "(x, s1) = flush_inserts bf (batch_events s0) []
                (say (Log DEBUG ''Hard flush: batching=%s'' [AVal (PBool bf)]) s0)"
       "x = Inr end_event"
    and upd: "(xa, s2) = flush_updates bf (update_events s1) s1" "xa = Inr u"
    and com: "(xb, s3) = commit s2" "xb = Inl e"
  have fail: "commit s2 = (Inl e, s3)"
    using com(1) [symmetric] com(2) by simp
  have ins': "flush_inserts bf (batch_events s0) []
                (say (Log DEBUG ''Hard flush: batching=%s'' [AVal (PBool bf)]) s0) = (Inr end_event, s1)"
    using ins(1) [symmetric] ins(2) by simp
  have upd': "flush_updates bf (update_events s1) s1 = (Inr u, s2)"
    using upd(1) [symmetric] upd(2) by simp
  have p3: "session_pending (batch_failed s3) = []"
    by (simp add: batch_failed_def rollback_def)
  show "((False, batch_failed s3), (bf, s0))
        \<in> measure (\<lambda>(bf, s). if bf then 2 else if session_pending s \<noteq> [] then 1 else 0)"
  proof (cases bf)
    case True
    then show ?thesis using p3 by simp
  next
    case False
    have "session_pending s0 \<noteq> []"
    proof
      assume e0: "session_pending s0 = []"
      have e1: "session_pending (say (Log DEBUG ''Hard flush: batching=%s'' [AVal (PBool bf)]) s0) = []"
        using e0 by (simp add: say_def)
      have i1: "flush_inserts False (batch_events s0) []
                  (say (Log DEBUG ''Hard flush: batching=%s'' [AVal (PBool bf)]) s0) = (Inr end_event, s1)"
        using ins' False by simp
      have e2: "session_pending s1 = []"
        by (rule flush_inserts_pending [OF i1 e1])
      have u1: "forE (\<lambda>event s. individual_commit event True s) (update_events s1) s1 = (Inr u, s2)"
        using upd' False by (simp add: flush_updates_def)
      have "session_pending s2 = []"
        by (rule forE_individual_pending [OF u1 e2])
      then show False using fail commit_empty [of s2] by simp
    qed
    then show ?thesis using False p3 by simp
  qed
qed

declare hard_flush.simps [simp del]

subsection \<open>Job state labels\<close>

lemma states_main_end:
  "map_of states ''stampede.job_inst.main.end'' = Some [''JOB_FAILURE'', ''JOB_SUCCESS'']"
  by (simp add: states_def)

lemma states_main_start:
  "map_of states ''stampede.job_inst.main.start'' = Some [''EXECUTE'', ''EXECUTE'']"
  by (simp add: states_def)

lemmas object_eval =
  object_of_def linedataToObject_def bindE_def attr_name_def undot_def attr_remap_def
  plain_runtime_def set_attr_def new_entity_def coercions_def coerce_def thenX_def hasattr_def
  columns_def getattr_def say_def

text \<open>
  Claim C2, as the code has it. The two labels of a tag are selected by
  \<open>int(status) + 1\<close>, so the table maps the statuses -1 and 0 (as its comment says): for
  \<open>stampede.job_inst.main.end\<close> status -1 gives \<open>JOB_FAILURE\<close> and status 0 gives
  \<open>JOB_SUCCESS\<close>. For \<open>stampede.job_inst.main.start\<close> the label is \<open>EXECUTE\<close> when the
  object has no status (it then gets status 0) and when it has status -1 or 0.
\<close>

theorem jobstate_label_by_status:
  "kind js = Jobstate \<Longrightarrow> attrs js ''event'' = Some (PStr tag) \<Longrightarrow>
   (tag = ''stampede.job_inst.main.end'' \<and> attrs js ''status'' = Some v \<and> py_int rt v = Inr (- 1)
      \<longrightarrow> assign_state rt js = Inr (set_attr js ''state'' (PStr ''JOB_FAILURE''))) \<and>
   (tag = ''stampede.job_inst.main.end'' \<and> attrs js ''status'' = Some v \<and> py_int rt v = Inr 0
      \<longrightarrow> assign_state rt js = Inr (set_attr js ''state'' (PStr ''JOB_SUCCESS''))) \<and>
   (tag = ''stampede.job_inst.main.start'' \<and> attrs js ''status'' = None
      \<longrightarrow> assign_state rt js
            = Inr (set_attr (set_attr js ''status'' (PInt 0)) ''state'' (PStr ''EXECUTE''))) \<and>
   (tag = ''stampede.job_inst.main.start'' \<and> attrs js ''status'' = Some v
        \<and> (py_int rt v = Inr (- 1) \<or> py_int rt v = Inr 0)
      \<longrightarrow> assign_state rt js = Inr (set_attr js ''state'' (PStr ''EXECUTE'')))"
  by (auto simp: assign_state_def thenX_def getattr_def hasattr_def Let_def states_main_end
      states_main_start py_index_def set_attr_def columns_def)

theorem jobstate_label_by_status_witness:
  "assign_state plain_runtime (js_of ''stampede.job_inst.main.end'' (Some (PInt (- 1))))
     = Inr (set_attr (js_of ''stampede.job_inst.main.end'' (Some (PInt (- 1)))) ''state'' (PStr ''JOB_FAILURE''))
   \<and> assign_state plain_runtime (js_of ''stampede.job_inst.main.end'' (Some (PInt 0)))
     = Inr (set_attr (js_of ''stampede.job_inst.main.end'' (Some (PInt 0))) ''state'' (PStr ''JOB_SUCCESS''))
   \<and> assign_state plain_runtime (js_of ''stampede.job_inst.main.start'' None)
     = Inr (set_attr (set_attr (js_of ''stampede.job_inst.main.start'' None) ''status'' (PInt 0))
              ''state'' (PStr ''EXECUTE''))
   \<and> assign_state plain_runtime (js_of ''stampede.job_inst.main.start'' (Some (PInt (- 1))))
     = Inr (set_attr (js_of ''stampede.job_inst.main.start'' (Some (PInt (- 1)))) ''state'' (PStr ''EXECUTE''))"
  using
    jobstate_label_by_status [of "js_of ''stampede.job_inst.main.end'' (Some (PInt (- 1)))"
      "''stampede.job_inst.main.end''" "PInt (- 1)" plain_runtime]
    jobstate_label_by_status [of "js_of ''stampede.job_inst.main.end'' (Some (PInt 0))"
      "''stampede.job_inst.main.end''" "PInt 0" plain_runtime]
    jobstate_label_by_status [of "js_of ''stampede.job_inst.main.start'' None"
      "''stampede.job_inst.main.start''" "PNone" plain_runtime]
    jobstate_label_by_status [of "js_of ''stampede.job_inst.main.start'' (Some (PInt (- 1)))"
      "''stampede.job_inst.main.start''" "PInt (- 1)" plain_runtime]
  by (simp add: js_of_def set_attr_def new_entity_def)

text \<open>
  The claim as the spec states it fails: a record of \<open>stampede.job_inst.main.end\<close> with
  status 0 is labelled \<open>JOB_SUCCESS\<close>, and with status 1 the index is out of range, for
  \<open>stampede.job_inst.main.start\<close> as well.
\<close>

theorem jobstate_label_counterexample:
  "map_sum id (\<lambda>js. attrs js ''state'')
     (thenX (object_of plain_runtime Jobstate
               [(''event'', PStr ''stampede.job_inst.main.end''), (''status'', PInt 0)])
        (assign_state plain_runtime)) = Inr (Some (PStr ''JOB_SUCCESS''))
   \<and> thenX (object_of plain_runtime Jobstate
               [(''event'', PStr ''stampede.job_inst.main.end''), (''status'', PInt 1)])
        (assign_state plain_runtime) = Inl IndexError
   \<and> thenX (object_of plain_runtime Jobstate
               [(''event'', PStr ''stampede.job_inst.main.start''), (''status'', PInt 1)])
        (assign_state plain_runtime) = Inl IndexError"
  by (simp add: object_eval assign_state_def states_def py_index_def Let_def)

subsection \<open>Cache invalidation\<close>

text \<open>
  Claim C5 asks that the end of workflow U purges every cache entry of U and no entry of
  another workflow. In the run \<open>two_workflows\<close> workflow W1 has surrogate id 1 and its
  job jB has job id 2, workflow W2 has id 2 and its job jA has job id 1. Before the end
  event of W1 the job instance cache holds (1, 1) for W2 and (2, 1) for W1 and the host
  cache holds (2, 1) for W1. After it the workflow id, root id and job id entries of W1 are
  gone, but the job instance entry and the host entry of W1 are still there, and the job
  instance entry of W2 is gone: \<open>flushCaches\<close> compares the job id in these keys with the
  workflow id and with the workflow UUID.
\<close>

theorem flushCaches_keeps_stale_entries:
  "(let s = snd (feed plain_runtime two_workflows (init False 0 []));
        s' = snd (feed plain_runtime (two_workflows @ [(9, xwf ''stampede.xwf.end'' ''W1'')])
                    (init False 0 []))
    in job_instance_id_cache s (PInt 1, PInt 1) = Some (PInt 1)
       \<and> job_instance_id_cache s (PInt 2, PInt 1) = Some (PInt 2)
       \<and> host_cache s (PInt 2, PInt 1) = Some True
       \<and> wf_id_cache s' (PStr ''W1'') = None
       \<and> job_id_cache s' (PInt 1, PStr ''jB'') = None
       \<and> job_instance_id_cache s' (PInt 2, PInt 1) = Some (PInt 2)
       \<and> host_cache s' (PInt 2, PInt 1) = Some True
       \<and> job_instance_id_cache s' (PInt 1, PInt 1) = None)"
  by code_simp

subsection \<open>Exceptions that leave process\<close>

text \<open>
  Claim C8 asks that no resolution failure leaves \<open>process\<close>. In immediate mode a host
  record for a job instance that is not in the store does: the job instance lookup of
  \<open>map_host_to_job_instance\<close> is a bare \<open>query.one()\<close>, whose NoResultFound no
  \<open>except\<close> clause of \<open>process\<close> names.
\<close>

theorem host_without_instance_raises:
  "fst (feed plain_runtime (butlast host_before_submit) (init False 0 [])) = Inr ()
   \<and> fst (feed plain_runtime host_before_submit (init False 0 [])) = Inl NoResultFound"
  by code_simp

subsection \<open>Flush triggers\<close>

text \<open>Methods that leave the mode, the clock, the counters and the number of flushes as
  they are.\<close>

lemma sfs_refl [simp]: "same_flush_state s s"
  by (simp add: same_flush_state_def)

lemma sfs_say: "\<not> is_flush_line m \<Longrightarrow> same_flush_state s0 s \<Longrightarrow> same_flush_state s0 (say m s)"
  by (simp add: same_flush_state_def say_def flushes_def)

lemma sfs_upd [simp]:
  "same_flush_state s0 (s\<lparr>wf_id_cache := a\<rparr>) = same_flush_state s0 s"
  "same_flush_state s0 (s\<lparr>root_wf_id_cache := b\<rparr>) = same_flush_state s0 s"
  "same_flush_state s0 (s\<lparr>job_id_cache := c\<rparr>) = same_flush_state s0 s"
  "same_flush_state s0 (s\<lparr>job_instance_id_cache := d\<rparr>) = same_flush_state s0 s"
  "same_flush_state s0 (s\<lparr>host_cache := e\<rparr>) = same_flush_state s0 s"
  "same_flush_state s0 (s\<lparr>hosts_written_cache := f\<rparr>) = same_flush_state s0 s"
  "same_flush_state s0 (s\<lparr>batch_events := g\<rparr>) = same_flush_state s0 s"
  "same_flush_state s0 (s\<lparr>update_events := h\<rparr>) = same_flush_state s0 s"
  "same_flush_state s0 (s\<lparr>host_map_events := i\<rparr>) = same_flush_state s0 s"
  "same_flush_state s0 (s\<lparr>task_map_flush := j\<rparr>) = same_flush_state s0 s"
  "same_flush_state s0 (s\<lparr>task_edge_flush := k\<rparr>) = same_flush_state s0 s"
  "same_flush_state s0 (s\<lparr>session_pending := l\<rparr>) = same_flush_state s0 s"
  "same_flush_state s0 (s\<lparr>db := m\<rparr>) = same_flush_state s0 s"
  by (simp_all add: same_flush_state_def flushes_def)

lemma sfs_bindE:
  "same_flush_state s0 (snd m) \<Longrightarrow> (\<And>a s1. same_flush_state s0 s1 \<Longrightarrow> same_flush_state s0 (snd (f a s1)))
   \<Longrightarrow> same_flush_state s0 (snd (bindE m f))"
  by (cases m) (auto simp: bindE_def split: sum.splits)

lemma not_flush_line [simp]:
  "fmt \<noteq> ''Hard flush: batching=%s'' \<Longrightarrow> \<not> is_flush_line (Log lv fmt args)"
  "\<not> is_flush_line (LogException e)"
  "\<not> is_flush_line (lookup_failed e ''Multiple wf_id results for wf_uuid %s : %s'' ''No wf_id results for wf_uuid %s : %s'' args)"
  by (simp_all add: is_flush_line_def lookup_failed_def)

lemma sfs_readE: "same_flush_state s0 s \<Longrightarrow> same_flush_state s0 (snd (readE o' a s))"
  by (simp add: readE_def)

lemma sfs_itemE: "same_flush_state s0 s \<Longrightarrow> same_flush_state s0 (snd (itemE l a s))"
  by (simp add: itemE_def)

lemma sfs_assign_fields: "same_flush_state s0 s \<Longrightarrow> same_flush_state s0 (snd (assign_fields rt l o' s))"
  by (induction rt l o' s rule: assign_fields.induct) (auto simp: sfs_say split: sum.splits)

lemma sfs_linedataToObject: "same_flush_state s0 s \<Longrightarrow> same_flush_state s0 (snd (linedataToObject rt l o' s))"
  by (auto simp: linedataToObject_def intro!: sfs_bindE sfs_assign_fields)

lemma sfs_wf_uuid_to_id: "same_flush_state s0 s \<Longrightarrow> same_flush_state s0 (snd (wf_uuid_to_id u s))"
  by (auto simp: wf_uuid_to_id_def sfs_say split: option.splits sum.splits)


lemma not_flush_line2 [simp]: "multiple \<noteq> ''Hard flush: batching=%s'' \<Longrightarrow> nothing \<noteq> ''Hard flush: batching=%s'' \<Longrightarrow>
  \<not> is_flush_line (lookup_failed e multiple nothing args)"
  by (simp add: is_flush_line_def lookup_failed_def)

lemma sfs_wf_uuid_to_root_id: "same_flush_state s0 s \<Longrightarrow> same_flush_state s0 (snd (wf_uuid_to_root_id u s))"
  by (auto simp: wf_uuid_to_root_id_def sfs_say split: option.splits sum.splits)

lemma sfs_get_job_id: "same_flush_state s0 s \<Longrightarrow> same_flush_state s0 (snd (get_job_id w e s))"
  by (auto simp: get_job_id_def sfs_say split: option.splits sum.splits)

lemma sfs_case_prod:
  "same_flush_state s0 (snd p) \<Longrightarrow> (\<And>a s1. same_flush_state s0 s1 \<Longrightarrow> same_flush_state s0 (snd (f a s1)))
   \<Longrightarrow> same_flush_state s0 (snd (case p of (a, s1) \<Rightarrow> f a s1))"
  by (cases p) simp

lemma sfs_if:
  "(c \<Longrightarrow> same_flush_state s0 (snd a)) \<Longrightarrow> (\<not> c \<Longrightarrow> same_flush_state s0 (snd b))
   \<Longrightarrow> same_flush_state s0 (snd (if c then a else b))"
  by simp

lemma sfs_let: "same_flush_state s0 (snd (f x)) \<Longrightarrow> same_flush_state s0 (snd (Let x f))"
  by simp

lemma sfs_option:
  "(x = None \<Longrightarrow> same_flush_state s0 (snd a)) \<Longrightarrow> (\<And>y. x = Some y \<Longrightarrow> same_flush_state s0 (snd (f y)))
   \<Longrightarrow> same_flush_state s0 (snd (case x of None \<Rightarrow> a | Some y \<Rightarrow> f y))"
  by (cases x) simp_all

lemma sfs_sum:
  "(\<And>e. x = Inl e \<Longrightarrow> same_flush_state s0 (snd (f e))) \<Longrightarrow> (\<And>y. x = Inr y \<Longrightarrow> same_flush_state s0 (snd (g y)))
   \<Longrightarrow> same_flush_state s0 (snd (case x of Inl e \<Rightarrow> f e | Inr y \<Rightarrow> g y))"
  by (cases x) simp_all

lemma sfs_list:
  "(x = [] \<Longrightarrow> same_flush_state s0 (snd a)) \<Longrightarrow> (\<And>y ys. x = y # ys \<Longrightarrow> same_flush_state s0 (snd (f y ys)))
   \<Longrightarrow> same_flush_state s0 (snd (case x of [] \<Rightarrow> a | y # ys \<Rightarrow> f y ys))"
  by (cases x) simp_all

lemma sfs_pair: "same_flush_state s0 s \<Longrightarrow> same_flush_state s0 (snd (x, s))"
  by simp

lemmas sfs_base = sfs_bindE sfs_case_prod sfs_if sfs_let sfs_option sfs_sum sfs_list sfs_pair
  sfs_readE sfs_itemE sfs_linedataToObject
  sfs_wf_uuid_to_id sfs_wf_uuid_to_root_id sfs_get_job_id

lemma sfs_get_job_instance_id:
  "same_flush_state s0 s \<Longrightarrow> same_flush_state s0 (snd (get_job_instance_id o' q s))"
  unfolding get_job_instance_id_def
  by (intro sfs_base) (simp_all add: sfs_say)

lemma sfs_write_last: "same_flush_state s0 s \<Longrightarrow> same_flush_state s0 (snd (write_last p s))"
  by (auto simp: write_last_def split: option.splits)

lemma sfs_commit_to_db: "same_flush_state s0 s \<Longrightarrow> same_flush_state s0 (snd (commit_to_db e s))"
  by (simp add: commit_to_db_def sfs_write_last)

lemma sfs_merge_to_db: "same_flush_state s0 s \<Longrightarrow> same_flush_state s0 (snd (merge_to_db e b s))"
  by (simp add: merge_to_db_def sfs_write_last)

lemma sfs_commit: "same_flush_state s0 s \<Longrightarrow> same_flush_state s0 (snd (commit s))"
  by (auto simp: commit_def split: option.splits)

lemma sfs_put: "same_flush_state s0 s \<Longrightarrow> same_flush_state s0 (snd (put e s))"
  unfolding put_def by (intro sfs_base sfs_commit_to_db) simp_all

lemma sfs_flushCaches: "same_flush_state s0 s \<Longrightarrow> same_flush_state s0 (snd (flushCaches e s))"
  unfolding flushCaches_def by (intro sfs_base) simp_all

lemma sfs_find_host_id: "same_flush_state s0 s \<Longrightarrow> same_flush_state s0 (snd (find_host_id h s))"
  unfolding find_host_id_def by (intro sfs_base) (simp_all add: sfs_say)

lemma sfs_map_host: "same_flush_state s0 s \<Longrightarrow> same_flush_state s0 (snd (map_host_to_job_instance h s))"
  unfolding map_host_to_job_instance_def
  by (intro sfs_base sfs_find_host_id sfs_merge_to_db) simp_all

lemmas sfs_intros = sfs_base sfs_get_job_instance_id
  sfs_commit_to_db sfs_merge_to_db sfs_commit sfs_put sfs_flushCaches sfs_map_host

lemma sfs_workflow: "same_flush_state s0 s \<Longrightarrow> same_flush_state s0 (snd (workflow rt l s))"
  unfolding workflow_def
  by (intro sfs_intros) (simp_all add: sfs_say)

lemma sfs_workflowstate: "same_flush_state s0 s \<Longrightarrow> same_flush_state s0 (snd (workflowstate rt l s))"
  unfolding workflowstate_def
  by (intro sfs_intros) (simp_all add: sfs_say)

lemma sfs_job: "same_flush_state s0 s \<Longrightarrow> same_flush_state s0 (snd (job rt l s))"
  unfolding job_def
  by (intro sfs_intros) (simp_all add: sfs_say)

lemma sfs_job_edge: "same_flush_state s0 s \<Longrightarrow> same_flush_state s0 (snd (job_edge rt l s))"
  unfolding job_edge_def
  by (intro sfs_intros) (simp_all add: sfs_say)

lemma sfs_task: "same_flush_state s0 s \<Longrightarrow> same_flush_state s0 (snd (task rt l s))"
  unfolding task_def
  by (intro sfs_intros) (simp_all add: sfs_say)

lemma sfs_jobstate: "same_flush_state s0 s \<Longrightarrow> same_flush_state s0 (snd (jobstate rt l s))"
  unfolding jobstate_def
  by (intro sfs_intros) (simp_all add: sfs_say)

lemma sfs_job_instance: "same_flush_state s0 s \<Longrightarrow> same_flush_state s0 (snd (job_instance rt l s))"
  unfolding job_instance_def
  by (intro sfs_intros sfs_jobstate) (simp_all add: sfs_say)

lemma sfs_invocation: "same_flush_state s0 s \<Longrightarrow> same_flush_state s0 (snd (invocation rt l s))"
  unfolding invocation_def
  by (intro sfs_intros) (simp_all add: sfs_say)


lemma sfs_subwf_map: "same_flush_state s0 s \<Longrightarrow> same_flush_state s0 (snd (subwf_map rt l s))"
  unfolding subwf_map_def commit_unless_batch_def
  by (intro sfs_intros) (simp_all add: sfs_say)

lemma sfs_seed_hosts: "same_flush_state s0 s \<Longrightarrow> same_flush_state s0 (seed_hosts s)"
  by (simp add: seed_hosts_def split: option.splits)

lemma sfs_host: "same_flush_state s0 s \<Longrightarrow> same_flush_state s0 (snd (host rt l s))"
  unfolding host_def
  by (intro sfs_intros) (simp_all add: sfs_say sfs_seed_hosts)

lemma sfs_online: "same_flush_state s0 s \<Longrightarrow> same_flush_state s0 (snd (online_monitoring_update rt l s))"
  unfolding online_monitoring_update_def
  by (intro sfs_intros) (simp_all add: sfs_say)

lemma sfs_run_handler:
  "h \<notin> {H_static_end, H_task_map, H_task_edge} \<Longrightarrow> same_flush_state s0 s \<Longrightarrow>
   same_flush_state s0 (snd (run_handler h rt l s))"
  by (cases h)
     (simp_all add: sfs_workflow sfs_workflowstate sfs_subwf_map sfs_task sfs_job sfs_job_edge
        sfs_job_instance sfs_jobstate sfs_host sfs_invocation sfs_online noop_def)

lemma sfs_on_KeyError: "same_flush_state s0 s \<Longrightarrow> same_flush_state s0 (snd (on_KeyError rt l s))"
  by (auto simp: on_KeyError_def bindE_def itemE_def intro!: sfs_jobstate sfs_say
      split: option.splits pyval.splits)

lemma sfs_on_IntegrityError: "same_flush_state s0 s \<Longrightarrow> same_flush_state s0 (snd (on_IntegrityError l s))"
  unfolding on_IntegrityError_def rollback_def
  by (intro sfs_intros) (simp_all add: sfs_say)

lemma sfs_dispatch:
  "\<not> forces_flush l \<Longrightarrow> same_flush_state s0 s \<Longrightarrow> same_flush_state s0 (snd (dispatch rt l s))"
  by (auto simp: dispatch_def bindE_def itemE_def forces_flush_def intro!: sfs_run_handler
      split: option.splits pyval.splits)

lemma sfs_try_dispatch:
  "\<not> forces_flush l \<Longrightarrow> same_flush_state s0 s \<Longrightarrow> same_flush_state s0 (snd (try_dispatch rt l s))"
proof -
  assume q: "\<not> forces_flush l" and r: "same_flush_state s0 s"
  obtain x s1 where d: "dispatch rt l s = (x, s1)" by (cases "dispatch rt l s")
  have r1: "same_flush_state s0 s1" using sfs_dispatch [OF q r, of rt] d by simp
  show ?thesis
    using d r1 by (auto simp: try_dispatch_def sfs_on_KeyError sfs_on_IntegrityError split: sum.splits)
qed

lemma check_flush_idle:
  "batch s \<Longrightarrow> flush_count s + 1 < flush_every s \<Longrightarrow> now s - last_flush s \<le> 30 \<Longrightarrow>
   check_flush s = (Inr (), s\<lparr>flush_count := flush_count s + 1\<rparr>)"
  by (simp add: check_flush_def Let_def)

lemma process_idle:
  assumes "\<not> forces_flush l" "batch s" "flush_every s = 1000" "flush_count s + 1 < 1000"
    "now s - last_flush s \<le> 30"
  shows "\<exists>s'. snd (process rt l s) = s' \<and> batch s' \<and> flush_every s' = 1000 \<and> last_flush s' = last_flush s
           \<and> flushes s' = flushes s \<and> flush_count s' \<le> flush_count s + 1"
proof -
  obtain x s1 where d: "try_dispatch rt l s = (x, s1)" by (cases "try_dispatch rt l s")
  have r1: "same_flush_state s s1" using sfs_try_dispatch [OF assms(1), of s s rt] d by simp
  show ?thesis
  proof (cases x)
    case (Inl e)
    then show ?thesis using d r1 assms by (simp add: process_def bindE_def same_flush_state_def)
  next
    case (Inr u)
    have "check_flush s1 = (Inr (), s1\<lparr>flush_count := flush_count s1 + 1\<rparr>)"
      using r1 assms by (intro check_flush_idle) (simp_all add: same_flush_state_def)
    then show ?thesis using d r1 Inr assms by (simp add: process_def bindE_def same_flush_state_def flushes_def)
  qed
qed

lemma feed_idle:
  "batch s \<Longrightarrow> flush_every s = 1000 \<Longrightarrow> flush_count s + int (length rs) < 1000 \<Longrightarrow>
   (\<forall>(t, l) \<in> set rs. \<not> forces_flush l \<and> t - last_flush s \<le> 30) \<Longrightarrow>
   flushes (snd (feed rt rs s)) = flushes s"
proof (induction rs arbitrary: s)
  case Nil
  then show ?case by simp
next
  case (Cons r rs)
  obtain t l where r: "r = (t, l)" by (cases r)
  let ?s = "s\<lparr>now := t\<rparr>"
  have "\<exists>s'. snd (process rt l ?s) = s' \<and> batch s' \<and> flush_every s' = 1000 \<and> last_flush s' = last_flush ?s
           \<and> flushes s' = flushes ?s \<and> flush_count s' \<le> flush_count ?s + 1"
    using Cons.prems r by (intro process_idle) auto
  then obtain s' where s': "snd (process rt l ?s) = s'" "batch s'" "flush_every s' = 1000"
      "last_flush s' = last_flush s" "flushes s' = flushes s" "flush_count s' \<le> flush_count s + 1"
    by (auto simp: flushes_def)
  show ?case
  proof (cases "fst (process rt l ?s)")
    case (Inl e)
    then show ?thesis using r s' by (cases "process rt l ?s") auto
  next
    case (Inr u)
    have "flushes (snd (feed rt rs s')) = flushes s'"
      using Cons.prems s' r by (intro Cons.IH) auto
    then show ?thesis using r s' Inr by (cases "process rt l ?s") auto
  qed
qed


lemma sfs_individual_commit:
  "same_flush_state s0 s \<Longrightarrow> same_flush_state s0 (snd (individual_commit e m s))"
  unfolding individual_commit_def rollback_def
  by (intro sfs_intros) (simp_all add: sfs_say)

lemma sfs_flush_inserts:
  "same_flush_state s0 s \<Longrightarrow> same_flush_state s0 (snd (flush_inserts bf es ee s))"
proof (induction es arbitrary: ee s)
  case Nil
  then show ?case by simp
next
  case (Cons e es)
  show ?case
    unfolding flush_inserts.simps
    by (intro sfs_intros sfs_individual_commit Cons.IH) (simp_all add: Cons.prems)
qed

lemma sfs_forE:
  "(\<And>x s. same_flush_state s0 s \<Longrightarrow> same_flush_state s0 (snd (f x s))) \<Longrightarrow>
   same_flush_state s0 s \<Longrightarrow> same_flush_state s0 (snd (forE f xs s))"
proof (induction xs arbitrary: s)
  case Nil
  then show ?case by simp
next
  case (Cons x xs)
  show ?case
    unfolding forE.simps
    by (intro sfs_intros Cons.IH Cons.prems) (simp_all add: Cons.prems)
qed

lemma sfs_flush_updates:
  "same_flush_state s0 s \<Longrightarrow> same_flush_state s0 (snd (flush_updates bf es s))"
  unfolding flush_updates_def
  by (rule sfs_forE) (auto intro: sfs_individual_commit)

lemma flushes_flush_tail: "flushes (snd (flush_tail ee s)) = flushes s"
proof -
  obtain r1 s1 where h: "forE map_host_to_job_instance (host_map_events s) s = (r1, s1)"
    by (cases "forE map_host_to_job_instance (host_map_events s) s")
  have e1: "same_flush_state s s1"
    using sfs_forE [of s map_host_to_job_instance s "host_map_events s"] h by (simp add: sfs_map_host)
  obtain r2 s2 where c: "forE flushCaches ee s1 = (r2, s2)"
    by (cases "forE flushCaches ee s1")
  have e2: "same_flush_state s s2"
    using sfs_forE [of s flushCaches s1 ee] c e1 by (simp add: sfs_flushCaches)
  obtain r3 s3 where k: "commit (s2\<lparr>batch_events := [], update_events := [], host_map_events := []\<rparr>) = (r3, s3)"
    by (cases "commit (s2\<lparr>batch_events := [], update_events := [], host_map_events := []\<rparr>)")
  have e3: "same_flush_state s s3"
    using sfs_commit [of s "s2\<lparr>batch_events := [], update_events := [], host_map_events := []\<rparr>"] k e2
    by simp
  have e4: "flushes (say (Log DEBUG ''Hard flush end'' []) (reset_flush_state s3)) = flushes s3"
    by (simp add: flushes_def say_def reset_flush_state_def is_flush_line_def)
  show ?thesis
    using h c k e1 e2 e3 e4
    by (cases r1; cases r2; cases r3) (simp_all add: flush_tail_def bindE_def same_flush_state_def)
qed

lemma flushes_hard_flush: "batch s \<Longrightarrow> flushes s < flushes (snd (hard_flush bf s))"
proof (induction bf s rule: hard_flush.induct)
  case (1 bf s0)
  let ?s = "say (Log DEBUG ''Hard flush: batching=%s'' [AVal (PBool bf)]) s0"
  have f0: "flushes ?s = flushes s0 + 1"
    by (simp add: flushes_def say_def is_flush_line_def)
  obtain x s1 where i: "flush_inserts bf (batch_events s0) [] ?s = (x, s1)"
    by (cases "flush_inserts bf (batch_events s0) [] ?s")
  have r1: "same_flush_state ?s s1"
    using sfs_flush_inserts [of ?s ?s bf "batch_events s0" "[]"] i by simp
  obtain y s2 where u: "flush_updates bf (update_events s1) s1 = (y, s2)"
    by (cases "flush_updates bf (update_events s1) s1")
  have r2: "same_flush_state ?s s2"
    using sfs_flush_updates [of ?s s1 bf "update_events s1"] u r1 by simp
  obtain z s3 where c: "commit s2 = (z, s3)"
    by (cases "commit s2")
  have r3: "same_flush_state ?s s3"
    using sfs_commit [of ?s s2] c r2 by simp
  have r4: "same_flush_state ?s (batch_failed s3)"
    using r3 by (simp add: batch_failed_def rollback_def sfs_say)
  obtain w s4 where g: "hard_flush False (batch_failed s3) = (w, s4)"
    by (cases "hard_flush False (batch_failed s3)")
  have b: "batch s0" by (rule "1.prems")
  have unfold: "hard_flush bf s0 =
      (case x of Inl e \<Rightarrow> (Inl e, s1)
       | Inr end_event \<Rightarrow>
          (case y of Inl e \<Rightarrow> (Inl e, s2)
           | Inr u \<Rightarrow>
              (case z of Inr u \<Rightarrow> flush_tail end_event s3
               | Inl e \<Rightarrow> (case w of Inl e \<Rightarrow> (Inl e, s4) | Inr u \<Rightarrow> flush_tail end_event s4))))"
    by (subst hard_flush.simps) (simp add: b i u c g split: sum.splits)
  show ?case
  proof (cases x)
    case (Inl e)
    then show ?thesis using unfold r1 f0 by (simp add: same_flush_state_def)
  next
    case xr: (Inr end_event)
    show ?thesis
    proof (cases y)
      case (Inl e)
      then show ?thesis using unfold xr r2 f0 by (simp add: same_flush_state_def)
    next
      case yr: (Inr u')
      show ?thesis
      proof (cases z)
        case (Inr u'')
        then show ?thesis
          using unfold xr yr r3 f0 by (simp add: same_flush_state_def flushes_flush_tail)
      next
        case zl: (Inl e)
        have "flushes (batch_failed s3) < flushes (snd (hard_flush False (batch_failed s3)))"
        proof (rule "1.IH")
          show "\<not> \<not> batch s0" using b by simp
          show "(x, s1) = flush_inserts bf (batch_events s0) [] ?s" using i by simp
          show "x = Inr end_event" by (rule xr)
          show "(y, s2) = flush_updates bf (update_events s1) s1" using u by simp
          show "y = Inr u'" by (rule yr)
          show "(z, s3) = commit s2" using c by simp
          show "z = Inl e" by (rule zl)
          show "batch (batch_failed s3)" using r4 b by (simp add: same_flush_state_def say_def)
        qed
        then have lt: "flushes s0 < flushes s4"
          using g r4 f0 by (simp add: same_flush_state_def)
        show ?thesis
          using unfold xr yr zl lt by (cases w) (simp_all add: flushes_flush_tail)
      qed
    qed
  qed
qed

lemma check_flush_flushes:
  assumes "batch s"
  shows "(flushes s < flushes (snd (check_flush s)))
         = (flush_every s \<le> flush_count s + 1 \<or> 30 < now s - last_flush s)"
proof -
  let ?s1 = "s\<lparr>flush_count := flush_count s + 1\<rparr>"
  have b1: "batch ?s1" using assms by simp
  have f1: "flushes ?s1 = flushes s" by (simp add: flushes_def)
  obtain r s2 where h: "hard_flush True ?s1 = (r, s2)" by (cases "hard_flush True ?s1")
  have lt: "flushes s < flushes s2"
    using flushes_hard_flush [OF b1, of True] h f1 by simp
  have grow: "flushes s < flushes (snd (bindE (hard_flush True ?s1) (\<lambda>_ s. (Inr (), say (Log DEBUG m []) s))))"
    if "m \<noteq> ''Hard flush: batching=%s''" for m
    using h lt that by (cases r) (simp_all add: bindE_def flushes_def say_def is_flush_line_def)
  show ?thesis
  proof (cases "flush_every s \<le> flush_count s + 1 \<or> 30 < now s - last_flush s")
    case True
    then show ?thesis
      using assms grow [of "''Flush: flush count''"] grow [of "''Flush: time based''"]
      by (auto simp: check_flush_def Let_def)
  next
    case False
    then show ?thesis using assms f1 by (simp add: check_flush_def Let_def)
  qed
qed

text \<open>
  Claim C3, as the code has it. In batched mode \<open>check_flush\<close>, which runs after every
  processed record, flushes exactly when its counter of processed records reaches
  \<open>flush_every\<close> (1000) or more than 30 seconds have passed since the last flush. The
  handlers of \<open>stampede.static.end\<close>, of the task map and of the task edges call
  \<open>hard_flush\<close> on their own: a \<open>stampede.static.end\<close> record always flushes. A run of
  fewer than 1000 records, none of them for these three handlers and each at most 30
  seconds after the start, performs no flush.
\<close>

theorem flush_triggers:
  "(batch s \<longrightarrow>
      (flushes s < flushes (snd (check_flush s)))
      = (flush_every s \<le> flush_count s + 1 \<or> 30 < now s - last_flush s))
   \<and> (batch s \<longrightarrow> flushes s < flushes (snd (static_end rt l s)))
   \<and> (length rs < 1000 \<and> (\<forall>(t, l) \<in> set rs. \<not> forces_flush l \<and> t - t0 \<le> 30)
        \<longrightarrow> flushes (snd (feed rt rs (init True t0 store))) = 0)"
proof (intro conjI impI)
  assume "batch s"
  then show "(flushes s < flushes (snd (check_flush s)))
             = (flush_every s \<le> flush_count s + 1 \<or> 30 < now s - last_flush s)"
    by (rule check_flush_flushes)
next
  assume "batch s"
  then show "flushes s < flushes (snd (static_end rt l s))"
    by (simp add: static_end_def flushes_hard_flush)
next
  assume a: "length rs < 1000 \<and> (\<forall>(t, l) \<in> set rs. \<not> forces_flush l \<and> t - t0 \<le> 30)"
  have "flushes (snd (feed rt rs (init True t0 store))) = flushes (init True t0 store)"
    using a by (intro feed_idle) (auto simp: init_def)
  then show "flushes (snd (feed rt rs (init True t0 store))) = 0"
    by (simp add: init_def flushes_def)
qed

theorem flush_triggers_witness:
  "flushes ((init True 0 [])\<lparr>now := 31\<rparr>) < flushes (snd (check_flush ((init True 0 [])\<lparr>now := 31\<rparr>)))
   \<and> flushes ((init True 0 [])\<lparr>now := 31\<rparr>)
       < flushes (snd (static_end plain_runtime [] ((init True 0 [])\<lparr>now := 31\<rparr>)))
   \<and> flushes (snd (feed plain_runtime [(1, job_info ''W1'' ''j1'')] (init True 0 []))) = 0"
  using flush_triggers [where s = "(init True 0 [])\<lparr>now := 31\<rparr>" and rs = "[(1, job_info ''W1'' ''j1'')]"
      and ?t0.0 = 0 and rt = plain_runtime and store = "[]" and l = "[]"]
  by (simp add: init_def forces_flush_def job_info_def eventMap_def)

text \<open>
  The claim as the spec states it fails: in batched mode a run of the single record
  \<open>stampede.static.end\<close>, which buffers no insert and takes no time, performs a flush.
\<close>

theorem flush_triggers_counterexample:
  "flushes (snd (feed plain_runtime [(0, [(''event'', PStr ''stampede.static.end'')])] (init True 0 []))) = 1"
  by code_simp

subsection \<open>KeyError inside a handler\<close>

text \<open>Methods that never raise KeyError.\<close>

lemma nk_bindE:
  "fst m \<noteq> Inl KeyError \<Longrightarrow> (\<And>a s1. fst (f a s1) \<noteq> Inl KeyError) \<Longrightarrow> fst (bindE m f) \<noteq> Inl KeyError"
  by (cases m) (auto simp: bindE_def split: sum.splits)

lemma nk_case_prod:
  "(\<And>a s1. fst (f a s1) \<noteq> Inl KeyError) \<Longrightarrow> fst (case p of (a, s1) \<Rightarrow> f a s1) \<noteq> Inl KeyError"
  by (cases p) simp

lemma nk_if:
  "(c \<Longrightarrow> fst a \<noteq> Inl KeyError) \<Longrightarrow> (\<not> c \<Longrightarrow> fst b \<noteq> Inl KeyError)
   \<Longrightarrow> fst (if c then a else b) \<noteq> Inl KeyError"
  by simp

lemma nk_let: "fst (f x) \<noteq> Inl KeyError \<Longrightarrow> fst (Let x f) \<noteq> Inl KeyError"
  by simp

lemma nk_option:
  "(x = None \<Longrightarrow> fst a \<noteq> Inl KeyError) \<Longrightarrow> (\<And>y. x = Some y \<Longrightarrow> fst (f y) \<noteq> Inl KeyError)
   \<Longrightarrow> fst (case x of None \<Rightarrow> a | Some y \<Rightarrow> f y) \<noteq> Inl KeyError"
  by (cases x) simp_all

lemma nk_sum:
  "(\<And>e. x = Inl e \<Longrightarrow> fst (f e) \<noteq> Inl KeyError) \<Longrightarrow> (\<And>y. x = Inr y \<Longrightarrow> fst (g y) \<noteq> Inl KeyError)
   \<Longrightarrow> fst (case x of Inl e \<Rightarrow> f e | Inr y \<Rightarrow> g y) \<noteq> Inl KeyError"
  by (cases x) simp_all

lemma nk_readE: "fst (readE o' a s) \<noteq> Inl KeyError"
  by (simp add: readE_def getattr_def split: option.splits)

lemma nk_thenX: "r \<noteq> Inl KeyError \<Longrightarrow> (\<And>a. f a \<noteq> Inl KeyError) \<Longrightarrow> thenX r f \<noteq> Inl KeyError"
  by (cases r) (simp_all add: thenX_def)

lemma nk_getattr: "getattr o' a \<noteq> Inl KeyError"
  by (simp add: getattr_def split: option.splits)

lemma nk_py_float: "py_float rt v \<noteq> Inl KeyError"
  by (cases v) (simp_all split: option.splits)

lemma nk_py_int: "py_int rt v \<noteq> Inl KeyError"
  by (cases v) (simp_all split: option.splits)

lemma nk_int_val: "int_val rt v \<noteq> Inl KeyError"
  by (cases "py_int rt v") (auto simp: int_val_def nk_py_int)

lemma nk_coerce: "(\<And>v. conv v \<noteq> Inl KeyError) \<Longrightarrow> coerce conv b a o' \<noteq> Inl KeyError"
  using nk_getattr [of o' a] by (auto simp: coerce_def split: sum.splits)

lemma nk_coercions: "coercions rt o' \<noteq> Inl KeyError"
  unfolding coercions_def
  by (intro nk_thenX nk_coerce nk_py_float nk_int_val)

lemma nk_sanitize: "sanitize_argv v \<noteq> Inl KeyError"
  by (cases v) simp_all

lemma nk_assign_fields: "fst (assign_fields rt l o' s) \<noteq> Inl KeyError"
  using nk_sanitize
  by (induction rt l o' s rule: assign_fields.induct) (auto split: sum.splits)

lemma nk_linedataToObject: "fst (linedataToObject rt l o' s) \<noteq> Inl KeyError"
  unfolding linedataToObject_def
  by (intro nk_bindE nk_assign_fields) (simp add: nk_coercions)

lemma nk_py_index: "py_index xs i \<noteq> Inl KeyError"
  by (simp add: py_index_def)

lemma nk_assign_state: "assign_state rt js \<noteq> Inl KeyError"
  by (auto simp: assign_state_def thenX_def Let_def nk_getattr nk_py_int nk_py_index
      split: option.splits pyval.splits sum.splits)

lemma nk_get_job_instance_id: "fst (get_job_instance_id o' q s) \<noteq> Inl KeyError"
  unfolding get_job_instance_id_def
  by (intro nk_bindE nk_case_prod nk_readE nk_option nk_sum) simp_all

lemma nk_write_last: "fst (write_last p s) \<noteq> Inl KeyError"
  by (simp add: write_last_def split: option.splits prod.splits)

lemma nk_commit_to_db: "fst (commit_to_db e s) \<noteq> Inl KeyError"
  by (simp add: commit_to_db_def nk_write_last)

lemma nk_merge_to_db: "fst (merge_to_db e b s) \<noteq> Inl KeyError"
  by (simp add: merge_to_db_def nk_write_last)

lemma nk_commit: "fst (commit s) \<noteq> Inl KeyError"
  by (simp add: commit_def split: option.splits)

lemma nk_put: "fst (put e s) \<noteq> Inl KeyError"
  unfolding put_def by (intro nk_if nk_bindE nk_commit_to_db) simp_all

lemma nk_jobstate: "fst (jobstate rt l s) \<noteq> Inl KeyError"
  unfolding jobstate_def
  by (intro nk_bindE nk_linedataToObject nk_get_job_instance_id nk_let nk_if nk_readE nk_put)
     (simp_all add: nk_assign_state)


lemma nk_wl: "write_last p s = (Inl e, s1) \<Longrightarrow> e = IntegrityError"
  by (auto simp: write_last_def split: option.splits prod.splits)

lemma nk_individual_commit: "fst (individual_commit e m s) \<noteq> Inl KeyError"
  by (auto simp: individual_commit_def merge_to_db_def commit_to_db_def
      split: prod.splits sum.splits dest: nk_wl)

lemma nk_flush_inserts: "fst (flush_inserts bf es ee s) \<noteq> Inl KeyError"
proof (induction es arbitrary: ee s)
  case Nil
  then show ?case by simp
next
  case (Cons e es)
  show ?case
    using nk_getattr [of e "''event''"] nk_individual_commit [of e False s] Cons.IH
    by (auto simp: Let_def split: sum.splits prod.splits)
qed

lemma nk_forE: "(\<And>x s. fst (f x s) \<noteq> Inl KeyError) \<Longrightarrow> fst (forE f xs s) \<noteq> Inl KeyError"
proof (induction xs arbitrary: s)
  case Nil
  then show ?case by simp
next
  case (Cons x xs)
  have "fst (f x s) \<noteq> Inl KeyError" by (rule Cons.prems)
  then show ?case
    using Cons.IH [OF Cons.prems] by (cases "f x s") (auto split: sum.splits)
qed

lemma nk_flush_updates: "fst (flush_updates bf es s) \<noteq> Inl KeyError"
  unfolding flush_updates_def
  by (rule nk_forE) (simp add: nk_individual_commit)

lemma nk_one: "one rs \<noteq> Inl KeyError"
  by (cases rs rule: one.cases) simp_all

lemma nk_find_host_id: "fst (find_host_id h s) \<noteq> Inl KeyError"
  using nk_one by (auto simp: find_host_id_def split: sum.splits)

lemma nk_map_host: "fst (map_host_to_job_instance h s) \<noteq> Inl KeyError"
  unfolding map_host_to_job_instance_def
  by (intro nk_bindE nk_case_prod nk_readE nk_if nk_find_host_id nk_merge_to_db) (simp_all add: nk_one)

lemma nk_flushCaches: "fst (flushCaches e s) \<noteq> Inl KeyError"
  unfolding flushCaches_def
  by (intro nk_bindE nk_readE) simp

lemma nk_flush_tail: "fst (flush_tail ee s) \<noteq> Inl KeyError"
  unfolding flush_tail_def
  by (intro nk_bindE nk_forE nk_map_host nk_flushCaches nk_commit) simp

lemma nk_hard_flush: "fst (hard_flush bf s) \<noteq> Inl KeyError"
proof (induction bf s rule: hard_flush.induct)
  case (1 bf s0)
  let ?s = "say (Log DEBUG ''Hard flush: batching=%s'' [AVal (PBool bf)]) s0"
  show ?case
  proof (cases "batch s0")
    case False
    then show ?thesis by (subst hard_flush.simps) simp
  next
    case b: True
    obtain x s1 where i: "flush_inserts bf (batch_events s0) [] ?s = (x, s1)"
      by (cases "flush_inserts bf (batch_events s0) [] ?s")
    obtain y s2 where u: "flush_updates bf (update_events s1) s1 = (y, s2)"
      by (cases "flush_updates bf (update_events s1) s1")
    obtain z s3 where c: "commit s2 = (z, s3)"
      by (cases "commit s2")
    obtain w s4 where g: "hard_flush False (batch_failed s3) = (w, s4)"
      by (cases "hard_flush False (batch_failed s3)")
    have nx: "x \<noteq> Inl KeyError" using nk_flush_inserts [of bf "batch_events s0" "[]" ?s] i by simp
    have ny: "y \<noteq> Inl KeyError" using nk_flush_updates [of bf "update_events s1" s1] u by simp
    have unfold: "hard_flush bf s0 =
        (case x of Inl e \<Rightarrow> (Inl e, s1)
         | Inr end_event \<Rightarrow>
            (case y of Inl e \<Rightarrow> (Inl e, s2)
             | Inr u \<Rightarrow>
                (case z of Inr u \<Rightarrow> flush_tail end_event s3
                 | Inl e \<Rightarrow> (case w of Inl e \<Rightarrow> (Inl e, s4) | Inr u \<Rightarrow> flush_tail end_event s4))))"
      by (subst hard_flush.simps) (simp add: b i u c g split: sum.splits)
    have nw: "w \<noteq> Inl KeyError" if "x = Inr ee" "y = Inr u'" "z = Inl e" for ee u' e
    proof -
      have "fst (hard_flush False (batch_failed s3)) \<noteq> Inl KeyError"
      proof (rule "1.IH")
        show "\<not> \<not> batch s0" using b by simp
        show "(x, s1) = flush_inserts bf (batch_events s0) [] ?s" using i by simp
        show "x = Inr ee" by (rule that)
        show "(y, s2) = flush_updates bf (update_events s1) s1" using u by simp
        show "y = Inr u'" by (rule that)
        show "(z, s3) = commit s2" using c by simp
        show "z = Inl e" by (rule that)
      qed
      then show ?thesis using g by simp
    qed
    show ?thesis
      using unfold nx ny nw nk_flush_tail
      by (auto split: sum.splits)
  qed
qed

lemma nk_check_flush: "fst (check_flush s) \<noteq> Inl KeyError"
  unfolding check_flush_def
  by (intro nk_if nk_let nk_bindE nk_hard_flush) simp_all

lemma on_KeyError_tag:
  "map_of l ''event'' = Some (PStr tag) \<Longrightarrow>
   on_KeyError rt l s =
     (if startswith tag ''stampede.job_inst.''
      then jobstate rt l (say (Log WARNING ''Corner case jobstate event: %s'' [AVal (PStr tag)]) s)
      else (Inr (), say (Log ERROR ''No handler for event type %s defined'' [AVal (PStr tag)]) s))"
  by (simp add: on_KeyError_def bindE_def itemE_def)

lemma nk_on_KeyError: "map_of l ''event'' = Some (PStr tag) \<Longrightarrow> fst (on_KeyError rt l s) \<noteq> Inl KeyError"
  by (simp add: on_KeyError_tag nk_jobstate)

lemma nk_on_IntegrityError:
  "map_of l ''event'' = Some (PStr tag) \<Longrightarrow> fst (on_IntegrityError l s) \<noteq> Inl KeyError"
  by (simp add: on_IntegrityError_def bindE_def itemE_def)

lemma nk_try_dispatch:
  "map_of l ''event'' = Some (PStr tag) \<Longrightarrow> fst (try_dispatch rt l s) \<noteq> Inl KeyError"
  by (auto simp: try_dispatch_def nk_on_KeyError nk_on_IntegrityError split: prod.splits sum.splits)

lemma nk_process:
  "map_of l ''event'' = Some (PStr tag) \<Longrightarrow> fst (process rt l s) \<noteq> Inl KeyError"
  unfolding process_def
  by (intro nk_bindE nk_try_dispatch nk_check_flush)

text \<open>
  Claim C10. When the body of the \<open>try\<close> in \<open>process\<close> raises KeyError for a record
  with event tag \<open>tag\<close>, be it from the lookup in \<open>eventMap\<close> (then nothing has
  happened yet) or from inside the handler (then in the state \<open>s1\<close> the handler has
  reached), the \<open>except KeyError\<close> clause runs from that state: for a tag that starts
  with \<open>stampede.job_inst.\<close> a warning is logged and the record goes to \<open>jobstate\<close>,
  for any other tag the error \<open>No handler for event type\<close> is logged and the record is
  dropped. Neither the \<open>try\<close> statement nor \<open>process\<close> as a whole raises KeyError.
\<close>

theorem KeyError_of_handler:
  assumes "map_of l ''event'' = Some (PStr tag)" and "dispatch rt l s = (Inl KeyError, s1)"
  shows "try_dispatch rt l s = on_KeyError rt l s1
    \<and> on_KeyError rt l s1 =
        (if startswith tag ''stampede.job_inst.''
         then jobstate rt l (say (Log WARNING ''Corner case jobstate event: %s'' [AVal (PStr tag)]) s1)
         else (Inr (), say (Log ERROR ''No handler for event type %s defined'' [AVal (PStr tag)]) s1))
    \<and> fst (try_dispatch rt l s) \<noteq> Inl KeyError
    \<and> fst (process rt l s) \<noteq> Inl KeyError
    \<and> (map_of eventMap tag = None \<longrightarrow> s1 = s)"
  using assms
  by (auto simp: try_dispatch_def on_KeyError_tag nk_jobstate nk_process dispatch_def bindE_def itemE_def)

theorem KeyError_of_handler_witness:
  "dispatch plain_runtime [(''event'', PStr ''stampede.task.edge'')] (init False 0 [])
     = (Inl KeyError, init False 0 [])
   \<and> try_dispatch plain_runtime [(''event'', PStr ''stampede.task.edge'')] (init False 0 [])
     = (Inr (), say (Log ERROR ''No handler for event type %s defined'' [AVal (PStr ''stampede.task.edge'')])
                  (init False 0 []))
   \<and> fst (process plain_runtime [(''event'', PStr ''stampede.task.edge'')] (init False 0 [])) \<noteq> Inl KeyError
   \<and> try_dispatch plain_runtime [(''event'', PStr ''stampede.job_inst.foo.bar'')] (init False 0 [])
     = jobstate plain_runtime [(''event'', PStr ''stampede.job_inst.foo.bar'')]
         (say (Log WARNING ''Corner case jobstate event: %s'' [AVal (PStr ''stampede.job_inst.foo.bar'')])
            (init False 0 []))"
proof -
  have h1: "dispatch plain_runtime [(''event'', PStr ''stampede.task.edge'')] (init False 0 [])
              = (Inl KeyError, init False 0 [])"
    by (simp add: dispatch_def bindE_def itemE_def eventMap_def task_edge_def)
  have h2: "dispatch plain_runtime [(''event'', PStr ''stampede.job_inst.foo.bar'')] (init False 0 [])
              = (Inl KeyError, init False 0 [])"
    by (simp add: dispatch_def bindE_def itemE_def eventMap_def)
  show ?thesis
    using h1 KeyError_of_handler [OF _ h1, of "''stampede.task.edge''"]
      KeyError_of_handler [OF _ h2, of "''stampede.job_inst.foo.bar''"]
    by (simp add: startswith_def)
qed

end
